theory Spec2Isabelle
  imports Complex_Main
begin

section \<open>Python values and errors\<close>

text \<open>
  The program computes with Python floats and numpy arrays. Floats are modelled as
  real numbers: rounding, overflow and underflow are left out, so every statement
  below is about exact arithmetic. What is kept is the control flow, including the
  exceptions Python raises:
  \<^item> a division of two Python floats raises \<open>ZeroDivisionError\<close> when the divisor is zero;
  \<^item> the same division on a numpy value does not raise: numpy continues with
    \<open>inf\<close> or \<open>nan\<close>. Such a value, and every value computed from it, is
    \<open>Untracked\<close>: the model says nothing about its number.
\<close>

datatype py_error =
    ValueError string
  | ZeroDivisionError
  | IndexError
  | KeyError string
  | NotImplementedError string

datatype npval = Finite real | Untracked

definition bind_err :: "'e + 'a \<Rightarrow> ('a \<Rightarrow> 'e + 'b) \<Rightarrow> 'e + 'b" where
  "bind_err m f = (case m of Inl e \<Rightarrow> Inl e | Inr a \<Rightarrow> f a)"

text \<open>Python: \<open>a / b\<close> on floats.\<close>

definition py_div :: "real \<Rightarrow> real \<Rightarrow> py_error + real" where
  "py_div a b = (if b = 0 then Inl ZeroDivisionError else Inr (a / b))"

text \<open>
  Python: \<open>a ** b\<close> on floats. A positive base gives \<open>exp (b * ln a)\<close>; a zero base
  raises for a negative exponent; a negative base gives a non-zero number (complex
  when the exponent is not an integer) that the model does not track.
\<close>

definition py_pow :: "real \<Rightarrow> real \<Rightarrow> py_error + npval" where
  "py_pow a b =
     (if 0 < a then Inr (Finite (a powr b))
      else if a = 0 then
        (if b < 0 then Inl ZeroDivisionError
         else if b = 0 then Inr (Finite 1) else Inr (Finite 0))
      else Inr Untracked)"

text \<open>numpy arithmetic: elementwise, never raising.\<close>

fun np_add :: "npval \<Rightarrow> npval \<Rightarrow> npval" where
  "np_add (Finite x) (Finite y) = Finite (x + y)"
| "np_add _ _ = Untracked"

fun np_sub :: "npval \<Rightarrow> npval \<Rightarrow> npval" where
  "np_sub (Finite x) (Finite y) = Finite (x - y)"
| "np_sub _ _ = Untracked"

fun np_mul :: "npval \<Rightarrow> npval \<Rightarrow> npval" where
  "np_mul (Finite x) (Finite y) = Finite (x * y)"
| "np_mul _ _ = Untracked"

fun np_div :: "npval \<Rightarrow> npval \<Rightarrow> npval" where
  "np_div (Finite x) (Finite y) = (if y = 0 then Untracked else Finite (x / y))"
| "np_div _ _ = Untracked"

fun np_log :: "npval \<Rightarrow> npval" where
  "np_log (Finite x) = (if 0 < x then Finite (ln x) else Untracked)"
| "np_log Untracked = Untracked"

fun np_exp :: "npval \<Rightarrow> npval" where
  "np_exp (Finite x) = Finite (exp x)"
| "np_exp Untracked = Untracked"

text \<open>numpy: \<open>x ** e\<close> for an array \<open>x\<close> and a float \<open>e\<close>; tracked for a positive base.\<close>

fun np_power :: "npval \<Rightarrow> real \<Rightarrow> npval" where
  "np_power (Finite x) e = (if 0 < x then Finite (x powr e) else Untracked)"
| "np_power Untracked e = Untracked"

text \<open>
  \<open>np.linspace(start, stop, n)\<close>: \<open>n\<close> evenly spaced points, the last one set to
  \<open>stop\<close> itself.
\<close>

definition linspace :: "real \<Rightarrow> real \<Rightarrow> nat \<Rightarrow> real list" where
  "linspace start stop n =
     (if n = 0 then []
      else if n = 1 then [start]
      else map (\<lambda>i. real i * ((stop - start) / real (n - 1)) + start) [0..<n - 1] @ [stop])"

section \<open>Ideal-gas process samplers (core/process\_paths.py)\<close>

text \<open>
  A sampled leg is a table with the columns \<open>P_kPa\<close>, \<open>v_m3_per_kg\<close>, \<open>T_K\<close> and
  an entropy column; one record per row.
\<close>

record sample =
  P_kPa :: npval
  v_m3_per_kg :: npval
  T_K :: npval
  s_kJ_per_kgK :: npval

definition cv_from_gamma_R :: "real \<Rightarrow> real \<Rightarrow> py_error + real \<times> real" where
  "cv_from_gamma_R gamma R =
     bind_err (py_div R (gamma - 1)) (\<lambda>cv. Inr (gamma * cv, cv))"

definition path_isentropic_ideal ::
  "real \<Rightarrow> real \<Rightarrow> real \<Rightarrow> real \<Rightarrow> real \<Rightarrow> real \<Rightarrow> real \<Rightarrow> nat \<Rightarrow> real \<Rightarrow> py_error + sample list" where
  "path_isentropic_ideal Pa Va Ta Pb Vb gamma R n s_a =
     bind_err (py_pow Va gamma) (\<lambda>Va_gamma.
       let Cpv = np_mul (Finite Pa) Va_gamma in
       Inr (map (\<lambda>V.
              \<lparr> P_kPa = np_div Cpv (np_power (Finite V) gamma),
                v_m3_per_kg = Finite V,
                T_K = np_mul (Finite Ta) (np_power (np_div (Finite Va) (Finite V)) (gamma - 1)),
                s_kJ_per_kgK = Finite s_a \<rparr>)
            (linspace Va Vb n)))"

definition path_const_v_ideal ::
  "real \<Rightarrow> real \<Rightarrow> real \<Rightarrow> real \<Rightarrow> nat \<Rightarrow> real \<Rightarrow> real \<Rightarrow> py_error + sample list" where
  "path_const_v_ideal Vconst Ta Tb R n s_a gamma =
     bind_err (cv_from_gamma_R gamma R) (\<lambda>(cp, cv).
       Inr (map (\<lambda>T.
              \<lparr> P_kPa = np_div (Finite (R * T)) (Finite Vconst),
                v_m3_per_kg = Finite Vconst,
                T_K = Finite T,
                s_kJ_per_kgK =
                  np_add (Finite s_a) (np_mul (Finite cv) (np_log (np_div (Finite T) (Finite Ta)))) \<rparr>)
            (linspace Ta Tb n)))"

definition path_const_p_ideal ::
  "real \<Rightarrow> real \<Rightarrow> real \<Rightarrow> real \<Rightarrow> nat \<Rightarrow> real \<Rightarrow> real \<Rightarrow> py_error + sample list" where
  "path_const_p_ideal Pconst Ta Tb R n s_a gamma =
     bind_err (cv_from_gamma_R gamma R) (\<lambda>(cp, cv).
       Inr (map (\<lambda>T.
              \<lparr> P_kPa = Finite Pconst,
                v_m3_per_kg = np_div (Finite (R * T)) (Finite Pconst),
                T_K = Finite T,
                s_kJ_per_kgK =
                  np_add (Finite s_a) (np_mul (Finite cp) (np_log (np_div (Finite T) (Finite Ta)))) \<rparr>)
            (linspace Ta Tb n)))"

definition path_isothermal_ideal ::
  "real \<Rightarrow> real \<Rightarrow> real \<Rightarrow> real \<Rightarrow> nat \<Rightarrow> real \<Rightarrow> py_error + sample list" where
  "path_isothermal_ideal Tconst Va Vb R n s_a =
     Inr (map (\<lambda>V.
            \<lparr> P_kPa = np_div (Finite (R * Tconst)) (Finite V),
              v_m3_per_kg = Finite V,
              T_K = Finite Tconst,
              s_kJ_per_kgK =
                np_add (Finite s_a) (np_mul (Finite R) (np_log (np_div (Finite V) (Finite Va)))) \<rparr>)
          (linspace Va Vb n))"

section \<open>Path sampler (core/process\_paths.py)\<close>

text \<open>
  A pandas table as the code builds it: a dictionary from column names to columns.
  The state table read by the sampler holds finite numbers.
\<close>

type_synonym 'c data_frame = "(string \<times> 'c list) list"

type_synonym leg = "string \<times> int \<times> int"

record path_frame =
  s_column :: string
  rows :: "sample list"

primrec first_index :: "('a \<Rightarrow> bool) \<Rightarrow> 'a list \<Rightarrow> nat option" where
  "first_index p [] = None"
| "first_index p (x # xs) = (if p x then Some 0 else map_option Suc (first_index p xs))"

text \<open>The entropy column of the state table, if it has one (lines 57 to 62).\<close>

definition choose_scol :: "real data_frame \<Rightarrow> string option" where
  "choose_scol states_df =
     (if ''s_kJ_per_kgK'' \<in> set (map fst states_df) then Some ''s_kJ_per_kgK''
      else if ''s_rel_kJ_per_kgK'' \<in> set (map fst states_df) then Some ''s_rel_kJ_per_kgK''
      else None)"

text \<open>
  \<open>row(k)\<close>: the first row whose \<open>State\<close> is \<open>k\<close>, as a dictionary from column
  names to cells. \<open>.iloc[0]\<close> raises \<open>IndexError\<close> when no row matches.
\<close>

definition row :: "real data_frame \<Rightarrow> int \<Rightarrow> py_error + (string \<times> real) list" where
  "row states_df k =
     (case map_of states_df ''State'' of
        None \<Rightarrow> Inl (KeyError ''State'')
      | Some col \<Rightarrow>
          (case first_index (\<lambda>x. x = of_int k) col of
             None \<Rightarrow> Inl IndexError
           | Some i \<Rightarrow> Inr (map (\<lambda>(c, xs). (c, xs ! i)) states_df)))"

definition series_get :: "(string \<times> real) list \<Rightarrow> string \<Rightarrow> py_error + real" where
  "series_get a c = (case map_of a c of None \<Rightarrow> Inl (KeyError c) | Some x \<Rightarrow> Inr x)"

text \<open>Line 72: \<open>s_a = float(a[scol]) if scol else 0.0\<close>.\<close>

definition entropy_anchor :: "string option \<Rightarrow> (string \<times> real) list \<Rightarrow> py_error + real" where
  "entropy_anchor scol a = (case scol of Some c \<Rightarrow> series_get a c | None \<Rightarrow> Inr 0)"

text \<open>Lines 74 to 99: the dispatch on the kind of the leg.\<close>

definition process_law ::
  "string \<Rightarrow> (string \<times> real) list \<Rightarrow> (string \<times> real) list \<Rightarrow> real \<Rightarrow> real \<Rightarrow> real
     \<Rightarrow> py_error + sample list" where
  "process_law kind a b gamma R s_a =
     (if kind = ''isen'' then
        bind_err (series_get a ''P_kPa'') (\<lambda>Pa.
        bind_err (series_get a ''v_m3_per_kg'') (\<lambda>Va.
        bind_err (series_get a ''T_K'') (\<lambda>Ta.
        bind_err (series_get b ''P_kPa'') (\<lambda>Pb.
        bind_err (series_get b ''v_m3_per_kg'') (\<lambda>Vb.
          path_isentropic_ideal Pa Va Ta Pb Vb gamma R 90 s_a)))))
      else if kind = ''cv'' then
        bind_err (series_get a ''v_m3_per_kg'') (\<lambda>Vconst.
        bind_err (series_get a ''T_K'') (\<lambda>Ta.
        bind_err (series_get b ''T_K'') (\<lambda>Tb.
          path_const_v_ideal Vconst Ta Tb R 70 s_a gamma)))
      else if kind = ''cp'' then
        bind_err (series_get a ''P_kPa'') (\<lambda>Pconst.
        bind_err (series_get a ''T_K'') (\<lambda>Ta.
        bind_err (series_get b ''T_K'') (\<lambda>Tb.
          path_const_p_ideal Pconst Ta Tb R 70 s_a gamma)))
      else if kind = ''isoth'' then
        bind_err (series_get a ''T_K'') (\<lambda>Tconst.
        bind_err (series_get a ''v_m3_per_kg'') (\<lambda>Va.
        bind_err (series_get b ''v_m3_per_kg'') (\<lambda>Vb.
          path_isothermal_ideal Tconst Va Vb R 90 s_a)))
      else Inl (ValueError (''Unknown leg kind: '' @ kind)))"

text \<open>One round of the loop, up to the segment of the leg (lines 68 to 99).\<close>

definition leg_segment ::
  "real data_frame \<Rightarrow> string option \<Rightarrow> real \<Rightarrow> real \<Rightarrow> leg \<Rightarrow> py_error + sample list" where
  "leg_segment states_df scol gamma R leg =
     (case leg of (kind, i, j) \<Rightarrow>
        bind_err (row states_df i) (\<lambda>a.
        bind_err (row states_df j) (\<lambda>b.
        bind_err (entropy_anchor scol a) (\<lambda>s_a.
          process_law kind a b gamma R s_a))))"

text \<open>
  The loop over the legs (lines 67 to 104): \<open>idx\<close> is the position of the leg, the
  result is the list \<open>out\<close>.
\<close>

fun legs_loop ::
  "real data_frame \<Rightarrow> string option \<Rightarrow> real \<Rightarrow> real \<Rightarrow> nat \<Rightarrow> leg list
     \<Rightarrow> py_error + sample list list" where
  "legs_loop states_df scol gamma R idx [] = Inr []"
| "legs_loop states_df scol gamma R idx (leg # legs) =
     bind_err (leg_segment states_df scol gamma R leg) (\<lambda>seg.
     bind_err (legs_loop states_df scol gamma R (Suc idx) legs) (\<lambda>out.
       Inr ((if 0 < idx then drop 1 seg else seg) # out)))"

text \<open>
  \<open>pd.concat\<close> raises \<open>ValueError\<close> on an empty list. The entropy column of the
  result takes the name of the state table's entropy column (lines 110 and 111).
\<close>

definition smooth_path_ideal ::
  "real data_frame \<Rightarrow> leg list \<Rightarrow> real \<Rightarrow> real \<Rightarrow> py_error + path_frame" where
  "smooth_path_ideal states_df legs gamma R =
     (let scol = choose_scol states_df in
      bind_err (legs_loop states_df scol gamma R 0 legs) (\<lambda>out.
        if out = [] then Inl (ValueError ''No objects to concatenate'')
        else Inr \<lparr> s_column =
                     (case scol of
                        Some c \<Rightarrow> (if c \<noteq> ''s_kJ_per_kgK'' then c else ''s_kJ_per_kgK'')
                      | None \<Rightarrow> ''s_kJ_per_kgK''),
                   rows = concat out \<rparr>))"

section \<open>Air-standard cycle solvers (cycles/*.py)\<close>

text \<open>
  A solver returns the state table and the dictionary of metrics. The values of a
  dictionary are Python objects: numbers, strings or \<open>None\<close>. The arguments of a
  solver are finite floats. Divisions are Python float divisions (\<open>py_div\<close>) except on
  values that come out of \<open>np.log\<close> or \<open>np.exp\<close>, which are numpy scalars.
\<close>

datatype pyobj = Num real | Str string | NoneObj

type_synonym metrics = "(string \<times> pyobj) list"

text \<open>
  cycles/brayton.py. After the guard \<open>rp > 1\<close>, so both powers have a positive
  base and are \<open>powr\<close>.
\<close>

definition brayton_ideal ::
  "real \<Rightarrow> real \<Rightarrow> real \<Rightarrow> real \<Rightarrow> real \<Rightarrow> real \<Rightarrow> real
     \<Rightarrow> py_error + npval data_frame \<times> metrics" where
  "brayton_ideal P1_kPa T1_K rp T3_K gamma cp_kJkgK R_kJkgK =
     (if rp \<le> 1 then Inl (ValueError ''Pressure ratio rp must be > 1'')
      else
        let P2 = P1_kPa * rp; P3 = P2; P4 = P1_kPa in
        bind_err (py_div (gamma - 1) gamma) (\<lambda>ex.
        let T2 = T1_K * (rp powr ex) in
        bind_err (py_div 1 rp) (\<lambda>inv_rp.
        let T4 = T3_K * (inv_rp powr ex) in
        bind_err (py_div (R_kJkgK * T1_K) P1_kPa) (\<lambda>v1.
        bind_err (py_div (R_kJkgK * T2) P2) (\<lambda>v2.
        bind_err (py_div (R_kJkgK * T3_K) P3) (\<lambda>v3.
        bind_err (py_div (R_kJkgK * T4) P4) (\<lambda>v4.
        let s1 = 0 in
        bind_err (py_div T2 T1_K) (\<lambda>t21.
        bind_err (py_div P2 P1_kPa) (\<lambda>p21.
        let s2 = np_sub (np_add (Finite s1) (np_mul (Finite cp_kJkgK) (np_log (Finite t21))))
                        (np_mul (Finite R_kJkgK) (np_log (Finite p21))) in
        bind_err (py_div T3_K T2) (\<lambda>t32.
        let s3 = np_add s2 (np_mul (Finite cp_kJkgK) (np_log (Finite t32))) in
        bind_err (py_div T4 T3_K) (\<lambda>t43.
        bind_err (py_div P4 P3) (\<lambda>p43.
        let s4 = np_sub (np_add s3 (np_mul (Finite cp_kJkgK) (np_log (Finite t43))))
                        (np_mul (Finite R_kJkgK) (np_log (Finite p43)));
            Wc = cp_kJkgK * (T2 - T1_K);
            Wt = cp_kJkgK * (T3_K - T4);
            Wnet = Wt - Wc;
            Qin = cp_kJkgK * (T3_K - T2);
            Qout = cp_kJkgK * (T4 - T1_K) in
        bind_err (py_div Qout Qin) (\<lambda>q.
        let eta = 1 - q;
            states =
              [(''State'', [Finite 1, Finite 2, Finite 3, Finite 4]),
               (''P_kPa'', [Finite P1_kPa, Finite P2, Finite P3, Finite P4]),
               (''T_K'', [Finite T1_K, Finite T2, Finite T3_K, Finite T4]),
               (''v_m3_per_kg'', [Finite v1, Finite v2, Finite v3, Finite v4]),
               (''s_rel_kJ_per_kgK'', [Finite s1, s2, s3, s4])] in
        bind_err (py_div Wc Wt) (\<lambda>bwr.
          Inr (states,
               [(''Wc_kJ_per_kg'', Num Wc),
                (''Wt_kJ_per_kg'', Num Wt),
                (''Wnet_kJ_per_kg'', Num Wnet),
                (''Qin_kJ_per_kg'', Num Qin),
                (''eta_th'', Num eta),
                (''back_work_ratio'', Num bwr)])))))))))))))))"

text \<open>
  Python: \<open>a / b\<close> for a float \<open>a\<close> and a Python number \<open>b\<close> that may be complex.
  An untracked \<open>b\<close> is non-zero (see \<open>py_pow\<close>), so the division does not raise.
\<close>

definition py_div_np :: "real \<Rightarrow> npval \<Rightarrow> py_error + npval" where
  "py_div_np a b =
     (case b of
        Finite y \<Rightarrow> (if y = 0 then Inl ZeroDivisionError else Inr (Finite (a / y)))
      | Untracked \<Rightarrow> Inr Untracked)"

text \<open>
  cycles/carnot.py. The volume scale \<open>v1\<close> is a parameter (1.0 by default). The
  message of the second guard starts with a Greek Delta in the source.
\<close>

definition carnot_cycle ::
  "real \<Rightarrow> real \<Rightarrow> real \<Rightarrow> string \<Rightarrow> real \<Rightarrow> real \<Rightarrow> real
     \<Rightarrow> py_error + npval data_frame \<times> metrics" where
  "carnot_cycle Th_K Tc_K delta_s_kJkgK mode gamma R_kJkgK v1 =
     (if Th_K \<le> Tc_K then Inl (ValueError ''Th must be > Tc for Carnot cycle.'')
      else if delta_s_kJkgK \<le> 0 then Inl (ValueError ''Delta s must be > 0'')
      else
        let s1 = 0; s2 = delta_s_kJkgK in
        bind_err (py_div delta_s_kJkgK R_kJkgK) (\<lambda>x.
        let v2 = np_mul (Finite v1) (np_exp (Finite x)) in
        bind_err (py_div Th_K Tc_K) (\<lambda>ratio.
        bind_err (py_div 1 (gamma - 1)) (\<lambda>e.
        bind_err (py_pow ratio e) (\<lambda>factor.
        let v3 = np_mul v2 factor;
            v4 = np_mul (Finite v1) factor in
        bind_err (py_div (R_kJkgK * Th_K) v1) (\<lambda>P1.
        let P2 = np_div (Finite (R_kJkgK * Th_K)) v2;
            P3 = np_div (Finite (R_kJkgK * Tc_K)) v3 in
        bind_err (py_div_np (R_kJkgK * Tc_K) v4) (\<lambda>P4.
        let states =
              [(''State'', [Finite 1, Finite 2, Finite 3, Finite 4]),
               (''T_K'', [Finite Th_K, Finite Th_K, Finite Tc_K, Finite Tc_K]),
               (''s_kJ_per_kgK'', [Finite s1, Finite s2, Finite s2, Finite s1]),
               (''v_m3_per_kg'', [Finite v1, v2, v3, v4]),
               (''P_kPa'', [Finite P1, P2, P3, P4])];
            Qh = Th_K * (s2 - s1);
            Qc = Tc_K * (s2 - s1);
            Wnet = Qh - Qc in
        if mode = ''engine'' then
          bind_err (py_div Tc_K Th_K) (\<lambda>q.
            Inr (states,
                 [(''mode'', Str ''Heat engine''), (''Q_in_kJ_per_kg'', Num Qh),
                  (''Q_out_kJ_per_kg'', Num Qc), (''W_net_kJ_per_kg'', Num Wnet),
                  (''eta_th'', Num (1 - q))]))
        else if mode = ''refrigerator'' then
          bind_err (py_div Qc Wnet) (\<lambda>cop.
            Inr (states,
                 [(''mode'', Str ''Refrigerator''), (''Q_cold_kJ_per_kg'', Num Qc),
                  (''W_in_kJ_per_kg'', Num Wnet), (''COP_R'', Num cop)]))
        else if mode = ''heat_pump'' then
          bind_err (py_div Qh Wnet) (\<lambda>cop.
            Inr (states,
                 [(''mode'', Str ''Heat pump''), (''Q_hot_kJ_per_kg'', Num Qh),
                  (''W_in_kJ_per_kg'', Num Wnet), (''COP_HP'', Num cop)]))
        else Inl (ValueError ''mode must be one of: engine, refrigerator, heat_pump''))))))))"

text \<open>cycles/otto.py. After the guards \<open>r > 1\<close>, so the powers of \<open>r\<close> are \<open>powr\<close>.\<close>

definition otto_cycle ::
  "real \<Rightarrow> real \<Rightarrow> real \<Rightarrow> real \<Rightarrow> real \<Rightarrow> real
     \<Rightarrow> py_error + npval data_frame \<times> metrics" where
  "otto_cycle T1_K P1_kPa r T3_K gamma R_kJkgK =
     (if r \<le> 1 then Inl (ValueError ''Compression ratio r must be > 1'')
      else if T3_K \<le> T1_K then Inl (ValueError ''T3 must be > T1'')
      else
        bind_err (py_div R_kJkgK (gamma - 1)) (\<lambda>cv.
        let cp = gamma * cv in
        bind_err (py_div (R_kJkgK * T1_K) P1_kPa) (\<lambda>v1.
        bind_err (py_div v1 r) (\<lambda>v2.
        let T2 = T1_K * (r powr (gamma - 1));
            P2 = P1_kPa * (r powr gamma);
            v3 = v2 in
        bind_err (py_div (R_kJkgK * T3_K) v3) (\<lambda>P3.
        let v4 = v1 in
        bind_err (py_div T3_K (r powr (gamma - 1))) (\<lambda>T4.
        bind_err (py_div P3 (r powr gamma)) (\<lambda>P4.
        let Qin = cv * (T3_K - T2);
            Qout = cv * (T4 - T1_K);
            Wnet = Qin - Qout in
        bind_err (py_div Qout Qin) (\<lambda>q.
        let eta = 1 - q;
            s1 = 0;
            s2 = s1 in
        bind_err (py_div T3_K T2) (\<lambda>t32.
        let s3 = np_add (Finite s2) (np_mul (Finite cv) (np_log (Finite t32)));
            s4 = s3 in
          Inr ([(''State'', [Finite 1, Finite 2, Finite 3, Finite 4]),
                (''P_kPa'', [Finite P1_kPa, Finite P2, Finite P3, Finite P4]),
                (''T_K'', [Finite T1_K, Finite T2, Finite T3_K, Finite T4]),
                (''v_m3_per_kg'', [Finite v1, Finite v2, Finite v3, Finite v4]),
                (''s_rel_kJ_per_kgK'', [Finite s1, Finite s2, s3, s4])],
               [(''eta_th'', Num eta),
                (''Qin_kJ_per_kg'', Num Qin),
                (''Qout_kJ_per_kg'', Num Qout),
                (''Wnet_kJ_per_kg'', Num Wnet),
                (''compression_ratio_r'', Num r)]))))))))))"

text \<open>
  cycles/diesel.py. When \<open>v3 / v4\<close> does not raise it is \<open>rc / r\<close>, a positive
  number, so its powers are \<open>powr\<close>.
\<close>

definition diesel_cycle ::
  "real \<Rightarrow> real \<Rightarrow> real \<Rightarrow> real \<Rightarrow> real \<Rightarrow> real
     \<Rightarrow> py_error + npval data_frame \<times> metrics" where
  "diesel_cycle T1_K P1_kPa r rc gamma R_kJkgK =
     (if r \<le> 1 then Inl (ValueError ''Compression ratio r must be > 1'')
      else if rc \<le> 1 then Inl (ValueError ''Cutoff ratio rc must be > 1'')
      else
        bind_err (py_div R_kJkgK (gamma - 1)) (\<lambda>cv.
        let cp = gamma * cv in
        bind_err (py_div (R_kJkgK * T1_K) P1_kPa) (\<lambda>v1.
        bind_err (py_div v1 r) (\<lambda>v2.
        let T2 = T1_K * (r powr (gamma - 1));
            P2 = P1_kPa * (r powr gamma);
            v3 = rc * v2;
            T3 = T2 * rc;
            P3 = P2;
            v4 = v1 in
        bind_err (py_div v3 v4) (\<lambda>v34.
        let T4 = T3 * (v34 powr (gamma - 1)) in
        bind_err (py_div v3 v4) (\<lambda>v34'.
        let P4 = P3 * (v34' powr gamma);
            Qin = cp * (T3 - T2);
            Qout = cv * (T4 - T1_K);
            Wnet = Qin - Qout in
        bind_err (py_div Qout Qin) (\<lambda>q.
        let eta = 1 - q;
            s1 = 0;
            s2 = s1 in
        bind_err (py_div T3 T2) (\<lambda>t32.
        let s3 = np_add (Finite s2) (np_mul (Finite cp) (np_log (Finite t32)));
            s4 = s3 in
          Inr ([(''State'', [Finite 1, Finite 2, Finite 3, Finite 4]),
                (''P_kPa'', [Finite P1_kPa, Finite P2, Finite P3, Finite P4]),
                (''T_K'', [Finite T1_K, Finite T2, Finite T3, Finite T4]),
                (''v_m3_per_kg'', [Finite v1, Finite v2, Finite v3, Finite v4]),
                (''s_rel_kJ_per_kgK'', [Finite s1, Finite s2, s3, s4])],
               [(''eta_th'', Num eta),
                (''Qin_kJ_per_kg'', Num Qin),
                (''Qout_kJ_per_kg'', Num Qout),
                (''Wnet_kJ_per_kg'', Num Wnet),
                (''compression_ratio_r'', Num r),
                (''cutoff_ratio_rc'', Num rc)])))))))))"

text \<open>cycles/dual.py. As in the Diesel cycle, \<open>v4 / v5\<close> is \<open>rc / r\<close> when it does not raise.\<close>

definition dual_cycle ::
  "real \<Rightarrow> real \<Rightarrow> real \<Rightarrow> real \<Rightarrow> real \<Rightarrow> real \<Rightarrow> real
     \<Rightarrow> py_error + npval data_frame \<times> metrics" where
  "dual_cycle T1_K P1_kPa r alpha rc gamma R_kJkgK =
     (if r \<le> 1 then Inl (ValueError ''Compression ratio r must be > 1'')
      else if alpha \<le> 1 then Inl (ValueError ''alpha (P3/P2) must be > 1'')
      else if rc \<le> 1 then Inl (ValueError ''rc (v4/v3) must be > 1'')
      else
        bind_err (py_div R_kJkgK (gamma - 1)) (\<lambda>cv.
        let cp = gamma * cv in
        bind_err (py_div (R_kJkgK * T1_K) P1_kPa) (\<lambda>v1.
        bind_err (py_div v1 r) (\<lambda>v2.
        let T2 = T1_K * (r powr (gamma - 1));
            P2 = P1_kPa * (r powr gamma);
            P3 = alpha * P2;
            T3 = alpha * T2;
            v3 = v2;
            v4 = rc * v3;
            T4 = rc * T3;
            P4 = P3;
            v5 = v1 in
        bind_err (py_div v4 v5) (\<lambda>v45.
        let T5 = T4 * (v45 powr (gamma - 1)) in
        bind_err (py_div v4 v5) (\<lambda>v45'.
        let P5 = P4 * (v45' powr gamma);
            Qin_cv = cv * (T3 - T2);
            Qin_cp = cp * (T4 - T3);
            Qin = Qin_cv + Qin_cp;
            Qout = cv * (T5 - T1_K);
            Wnet = Qin - Qout in
        bind_err (py_div Qout Qin) (\<lambda>q.
        let eta = 1 - q;
            s1 = 0;
            s2 = s1 in
        bind_err (py_div T3 T2) (\<lambda>t32.
        let s3 = np_add (Finite s2) (np_mul (Finite cv) (np_log (Finite t32))) in
        bind_err (py_div T4 T3) (\<lambda>t43.
        let s4 = np_add s3 (np_mul (Finite cp) (np_log (Finite t43)));
            s5 = s4 in
          Inr ([(''State'', [Finite 1, Finite 2, Finite 3, Finite 4, Finite 5]),
                (''P_kPa'', [Finite P1_kPa, Finite P2, Finite P3, Finite P4, Finite P5]),
                (''T_K'', [Finite T1_K, Finite T2, Finite T3, Finite T4, Finite T5]),
                (''v_m3_per_kg'', [Finite v1, Finite v2, Finite v3, Finite v4, Finite v5]),
                (''s_rel_kJ_per_kgK'', [Finite s1, Finite s2, s3, s4, s5])],
               [(''eta_th'', Num eta),
                (''Qin_kJ_per_kg'', Num Qin),
                (''Qout_kJ_per_kg'', Num Qout),
                (''Wnet_kJ_per_kg'', Num Wnet),
                (''compression_ratio_r'', Num r),
                (''alpha_P3_over_P2'', Num alpha),
                (''cutoff_ratio_rc'', Num rc)]))))))))))"

section \<open>Rankine cycles (cycles/rankine\_basic.py, cycles/rankine\_reheat.py)\<close>

text \<open>
  The steam properties come from the library \<open>iapws\<close>, which is not part of the
  program: \<open>IAPWS97(P=.., x=..)\<close> and its siblings are calls of a provider, a
  parameter of the model. A call either raises or gives a state with the attributes
  \<open>h\<close>, \<open>s\<close>, \<open>T\<close>, \<open>v\<close> and \<open>x\<close>. Reading \<open>x\<close> gives a float, \<open>nan\<close> or
  \<open>None\<close>, or raises. \<open>st_region\<close> is the IAPWS-97 region of the state (4 is the
  two-phase region); the solvers do not read it. Every call is recorded in a log.
\<close>

datatype iapws_query = P_x real real | P_h real real | P_T real real | P_s real real

datatype xattr = XFloat real | XNaN | XNone | XRaises

record steam =
  st_h :: real
  st_s :: real
  st_T :: real
  st_v :: real
  st_x :: xattr
  st_region :: nat

type_synonym provider = "iapws_query \<Rightarrow> py_error + steam"

type_synonym 'a traced = "iapws_query list \<Rightarrow> (py_error + 'a) \<times> iapws_query list"

definition treturn :: "'a \<Rightarrow> 'a traced" where
  "treturn a tr = (Inr a, tr)"

definition traise :: "py_error \<Rightarrow> 'a traced" where
  "traise e tr = (Inl e, tr)"

definition tbind :: "'a traced \<Rightarrow> ('a \<Rightarrow> 'b traced) \<Rightarrow> 'b traced" where
  "tbind m f tr = (case m tr of (Inl e, tr') \<Rightarrow> (Inl e, tr') | (Inr a, tr') \<Rightarrow> f a tr')"

definition IAPWS97 :: "provider \<Rightarrow> iapws_query \<Rightarrow> steam traced" where
  "IAPWS97 prov q tr = (prov q, tr @ [q])"

text \<open>
  \<open>_safe_quality\<close>: \<open>None\<close> when reading \<open>st.x\<close> raises or gives \<open>None\<close> or \<open>nan\<close>.
\<close>

definition safe_quality :: "steam \<Rightarrow> real option" where
  "safe_quality st =
     (case st_x st of
        XRaises \<Rightarrow> None
      | XNone \<Rightarrow> None
      | XNaN \<Rightarrow> None
      | XFloat x \<Rightarrow> Some x)"

text \<open>A float or \<open>None\<close> as a cell of a table or a value of a dictionary.\<close>

definition float_or_none :: "real option \<Rightarrow> pyobj" where
  "float_or_none q = (case q of None \<Rightarrow> NoneObj | Some x \<Rightarrow> Num x)"

text \<open>
  \<open>np.geomspace(start, stop, n)\<close> for positive \<open>start\<close> and \<open>stop\<close>: \<open>n\<close> points
  evenly spaced in the logarithm, the first and the last set to \<open>start\<close> and \<open>stop\<close>.
\<close>

definition geomspace :: "real \<Rightarrow> real \<Rightarrow> nat \<Rightarrow> real list" where
  "geomspace start stop n =
     (if n = 0 then []
      else if n = 1 then [start]
      else start #
           map (\<lambda>y. 10 powr y) (butlast (tl (linspace (log 10 start) (log 10 stop) n))) @ [stop])"

text \<open>The loop that builds the saturation dome: two calls of the provider per pressure.\<close>

fun dome_loop ::
  "provider \<Rightarrow> real list \<Rightarrow> real list \<times> real list \<times> real list
     \<Rightarrow> (real list \<times> real list \<times> real list) traced" where
  "dome_loop prov [] acc = treturn acc"
| "dome_loop prov (P # Ps) acc =
     (case acc of (Ts, sf, sg) \<Rightarrow>
        tbind (IAPWS97 prov (P_x P 0)) (\<lambda>f.
        tbind (IAPWS97 prov (P_x P 1)) (\<lambda>g.
          dome_loop prov Ps (Ts @ [st_T f], sf @ [st_s f], sg @ [st_s g]))))"

definition rankine_ideal ::
  "provider \<Rightarrow> real \<Rightarrow> real \<Rightarrow> real option
     \<Rightarrow> (pyobj data_frame \<times> metrics \<times> real data_frame) traced" where
  "rankine_ideal prov Pc_kPa Pb_kPa T3_C =
     (if Pc_kPa \<le> 0 \<or> Pb_kPa \<le> 0 then traise (ValueError ''Pressures must be > 0'')
      else if Pb_kPa \<le> Pc_kPa then
        traise (ValueError ''Boiler pressure must be > condenser pressure'')
      else
        let Pc = Pc_kPa / 1000; Pb = Pb_kPa / 1000 in
        tbind (IAPWS97 prov (P_x Pc 0)) (\<lambda>st1.
        let h1 = st_h st1; s1 = st_s st1; T1 = st_T st1; v1 = st_v st1;
            dP_kPa = Pb_kPa - Pc_kPa;
            wp = v1 * dP_kPa;
            h2 = h1 + wp in
        tbind (IAPWS97 prov (P_h Pb h2)) (\<lambda>st2.
        let T2 = st_T st2; s2 = st_s st2; v2 = st_v st2 in
        tbind (case T3_C of
                 None \<Rightarrow> IAPWS97 prov (P_x Pb 1)
               | Some t \<Rightarrow> IAPWS97 prov (P_T Pb (t + 27315 / 100))) (\<lambda>st3.
        let h3 = st_h st3; s3 = st_s st3; T3 = st_T st3; v3 = st_v st3 in
        tbind (IAPWS97 prov (P_s Pc s3)) (\<lambda>st4.
        let h4 = st_h st4; s4 = st_s st4; T4 = st_T st4; v4 = st_v st4;
            wt = h3 - h4;
            wnet = wt - wp;
            qin = h3 - h2;
            qout = h4 - h1 in
        tbind (case py_div wnet qin of Inl e \<Rightarrow> traise e | Inr q \<Rightarrow> treturn q) (\<lambda>eta.
        let states =
              [(''State'', [Num 1, Num 2, Num 3, Num 4]),
               (''P_kPa'', [Num Pc_kPa, Num Pb_kPa, Num Pb_kPa, Num Pc_kPa]),
               (''T_K'', [Num T1, Num T2, Num T3, Num T4]),
               (''h_kJ_per_kg'', [Num h1, Num h2, Num h3, Num h4]),
               (''s_kJ_per_kgK'', [Num s1, Num s2, Num s3, Num s4]),
               (''v_m3_per_kg'', [Num v1, Num v2, Num v3, Num v4]),
               (''x_quality'',
                  [float_or_none (safe_quality st1), float_or_none (safe_quality st2),
                   float_or_none (safe_quality st3), float_or_none (safe_quality st4)])];
            metrics =
              [(''wp_kJ_per_kg'', Num wp),
               (''wt_kJ_per_kg'', Num wt),
               (''Wnet_kJ_per_kg'', Num wnet),
               (''Qin_kJ_per_kg'', Num qin),
               (''eta_th'', Num eta),
               (''turbine_exit_quality_x'', float_or_none (safe_quality st4))] in
        tbind (dome_loop prov (geomspace Pc Pb 80) ([], [], [])) (\<lambda>(Ts, sf, sg).
          treturn (states, metrics, [(''T_K'', Ts), (''s_f'', sf), (''s_g'', sg)]))))))))"

definition rankine_reheat_ideal ::
  "provider \<Rightarrow> real \<Rightarrow> real \<Rightarrow> real \<Rightarrow> real \<Rightarrow> real
     \<Rightarrow> (pyobj data_frame \<times> metrics \<times> real data_frame) traced" where
  "rankine_reheat_ideal prov Pc_kPa Pb_kPa Pr_kPa T3_C T5_C =
     (if Pc_kPa \<le> 0 \<or> Pb_kPa \<le> 0 \<or> Pr_kPa \<le> 0 then
        traise (ValueError ''Pressures must be > 0'')
      else if \<not> (Pb_kPa > Pr_kPa \<and> Pr_kPa > Pc_kPa) then traise (ValueError ''Need Pb > Pr > Pc'')
      else
        let Pc = Pc_kPa / 1000; Pb = Pb_kPa / 1000; Pr = Pr_kPa / 1000 in
        tbind (IAPWS97 prov (P_x Pc 0)) (\<lambda>st1.
        let h1 = st_h st1; s1 = st_s st1; T1 = st_T st1; v1 = st_v st1;
            wp = v1 * (Pb_kPa - Pc_kPa);
            h2 = h1 + wp in
        tbind (IAPWS97 prov (P_h Pb h2)) (\<lambda>st2.
        let T2 = st_T st2; s2 = st_s st2; v2 = st_v st2 in
        tbind (IAPWS97 prov (P_T Pb (T3_C + 27315 / 100))) (\<lambda>st3.
        let h3 = st_h st3; s3 = st_s st3; T3 = st_T st3; v3 = st_v st3 in
        tbind (IAPWS97 prov (P_s Pr s3)) (\<lambda>st4.
        let h4 = st_h st4; s4 = st_s st4; T4 = st_T st4; v4 = st_v st4 in
        tbind (IAPWS97 prov (P_T Pr (T5_C + 27315 / 100))) (\<lambda>st5.
        let h5 = st_h st5; s5 = st_s st5; T5 = st_T st5; v5 = st_v st5 in
        tbind (IAPWS97 prov (P_s Pc s5)) (\<lambda>st6.
        let h6 = st_h st6; s6 = st_s st6; T6 = st_T st6; v6 = st_v st6;
            wt_hp = h3 - h4;
            wt_lp = h5 - h6;
            wt = wt_hp + wt_lp;
            wnet = wt - wp;
            qin_boiler = h3 - h2;
            qin_reheat = h5 - h4;
            qin_total = qin_boiler + qin_reheat in
        tbind (case py_div wnet qin_total of Inl e \<Rightarrow> traise e | Inr q \<Rightarrow> treturn q) (\<lambda>eta.
        let states =
              [(''State'', [Num 1, Num 2, Num 3, Num 4, Num 5, Num 6]),
               (''P_kPa'', [Num Pc_kPa, Num Pb_kPa, Num Pb_kPa, Num Pr_kPa, Num Pr_kPa, Num Pc_kPa]),
               (''T_K'', [Num T1, Num T2, Num T3, Num T4, Num T5, Num T6]),
               (''h_kJ_per_kg'', [Num h1, Num h2, Num h3, Num h4, Num h5, Num h6]),
               (''s_kJ_per_kgK'', [Num s1, Num s2, Num s3, Num s4, Num s5, Num s6]),
               (''v_m3_per_kg'', [Num v1, Num v2, Num v3, Num v4, Num v5, Num v6]),
               (''x_quality'',
                  [float_or_none (safe_quality st1), float_or_none (safe_quality st2),
                   float_or_none (safe_quality st3), float_or_none (safe_quality st4),
                   float_or_none (safe_quality st5), float_or_none (safe_quality st6)])];
            metrics =
              [(''wp_kJ_per_kg'', Num wp),
               (''wt_hp_kJ_per_kg'', Num wt_hp),
               (''wt_lp_kJ_per_kg'', Num wt_lp),
               (''wt_total_kJ_per_kg'', Num wt),
               (''Wnet_kJ_per_kg'', Num wnet),
               (''Qin_boiler_kJ_per_kg'', Num qin_boiler),
               (''Qin_reheat_kJ_per_kg'', Num qin_reheat),
               (''Qin_total_kJ_per_kg'', Num qin_total),
               (''eta_th'', Num eta),
               (''turbine_exit_quality_x6'', float_or_none (safe_quality st6))] in
        tbind (dome_loop prov (geomspace Pc Pb 90) ([], [], [])) (\<lambda>(Ts, sf, sg).
          treturn (states, metrics, [(''T_K'', Ts), (''s_f'', sf), (''s_g'', sg)]))))))))))"

text \<open>
  Modelled from the spec: the contract of the property provider, which is not part of
  the program. Quality is a number in [0, 1] inside the two-phase region and is absent
  outside it.
\<close>

definition provider_contract :: "provider \<Rightarrow> bool" where
  "provider_contract prov \<longleftrightarrow>
     (\<forall>q st. prov q = Inr st \<longrightarrow>
        (if st_region st = 4 then (\<exists>x. st_x st = XFloat x \<and> 0 \<le> x \<and> x \<le> 1)
         else st_x st \<in> {XNone, XNaN, XRaises}))"

text \<open>
  Two providers for the concrete instances below: with the first the turbine exit is in
  the two-phase region, with the second it is superheated.
\<close>

abbreviation example_provider :: provider where
  "example_provider \<equiv> (\<lambda>q. case q of
       P_x P x \<Rightarrow> Inr \<lparr> st_h = 200, st_s = 1, st_T = 300, st_v = 1 / 1000,
                         st_x = XFloat 0, st_region = 4 \<rparr>
     | P_h P h \<Rightarrow> Inr \<lparr> st_h = h, st_s = 1, st_T = 301, st_v = 1 / 1000,
                         st_x = XNone, st_region = 1 \<rparr>
     | P_T P T \<Rightarrow> Inr \<lparr> st_h = 3000, st_s = 7, st_T = T, st_v = 1 / 10,
                         st_x = XNone, st_region = 2 \<rparr>
     | P_s P s \<Rightarrow> Inr \<lparr> st_h = 2000, st_s = s, st_T = 320, st_v = 10,
                         st_x = XFloat (4 / 5), st_region = 4 \<rparr>)"

abbreviation example_provider_superheated :: provider where
  "example_provider_superheated \<equiv> (\<lambda>q. case q of
       P_x P x \<Rightarrow> Inr \<lparr> st_h = 200, st_s = 1, st_T = 300, st_v = 1 / 1000,
                         st_x = XFloat 0, st_region = 4 \<rparr>
     | P_h P h \<Rightarrow> Inr \<lparr> st_h = h, st_s = 1, st_T = 301, st_v = 1 / 1000,
                         st_x = XNone, st_region = 1 \<rparr>
     | P_T P T \<Rightarrow> Inr \<lparr> st_h = 3000, st_s = 7, st_T = T, st_v = 1 / 10,
                         st_x = XNone, st_region = 2 \<rparr>
     | P_s P s \<Rightarrow> Inr \<lparr> st_h = 2700, st_s = s, st_T = 400, st_v = 20,
                         st_x = XRaises, st_region = 2 \<rparr>)"

text \<open>A state table with two states, for the concrete instances below.\<close>

abbreviation example_states :: "real data_frame" where
  "example_states \<equiv>
     [(''State'', [1, 2]), (''P_kPa'', [100, 200]), (''T_K'', [300, 600]),
      (''v_m3_per_kg'', [861 / 1000, 861 / 1000]), (''s_kJ_per_kgK'', [0, 5])]"

section \<open>Properties\<close>

lemma length_linspace: "length (linspace a b n) = n"
  by (cases n) (auto simp: linspace_def)

lemma bind_err_Inr_iff:
  "bind_err m f = Inr y \<longleftrightarrow> (\<exists>x. m = Inr x \<and> f x = Inr y)"
  by (cases m) (simp_all add: bind_err_def)

lemma bind_err_Inl_iff:
  "bind_err m f = Inl e \<longleftrightarrow> m = Inl e \<or> (\<exists>x. m = Inr x \<and> f x = Inl e)"
  by (cases m) (simp_all add: bind_err_def)

subsection \<open>The process laws\<close>

lemma isentropic_entropy:
  "path_isentropic_ideal Pa Va Ta Pb Vb gamma R n s_a = Inr seg
     \<Longrightarrow> map s_kJ_per_kgK seg = replicate n (Finite s_a)"
  by (auto simp: path_isentropic_ideal_def bind_err_Inr_iff Let_def map_replicate_const
      length_linspace comp_def)

lemma const_v_volume:
  "path_const_v_ideal Vconst Ta Tb R n s_a gamma = Inr seg
     \<Longrightarrow> map v_m3_per_kg seg = replicate n (Finite Vconst)"
  by (auto simp: path_const_v_ideal_def bind_err_Inr_iff map_replicate_const
      length_linspace comp_def)

lemma const_p_pressure:
  "path_const_p_ideal Pconst Ta Tb R n s_a gamma = Inr seg
     \<Longrightarrow> map P_kPa seg = replicate n (Finite Pconst)"
  by (auto simp: path_const_p_ideal_def bind_err_Inr_iff map_replicate_const
      length_linspace comp_def)

lemma isothermal_temperature:
  "path_isothermal_ideal Tconst Va Vb R n s_a = Inr seg
     \<Longrightarrow> map T_K seg = replicate n (Finite Tconst)"
  by (auto simp: path_isothermal_ideal_def map_replicate_const length_linspace comp_def)

text \<open>
  C5. On every leg the quantity the process holds fixed is the same in all \<open>n\<close>
  samples: the entropy \<open>s_a\<close> on an isentropic leg, the volume on a constant-volume
  leg, the pressure on a constant-pressure leg and the temperature on an isothermal
  leg.
\<close>

theorem process_law_fixed_quantity:
  "(path_isentropic_ideal Pa Va Ta Pb Vb gamma R n s_a = Inr seg1
      \<longrightarrow> map s_kJ_per_kgK seg1 = replicate n (Finite s_a)) \<and>
   (path_const_v_ideal Vconst Tc Td R n s_c gamma = Inr seg2
      \<longrightarrow> map v_m3_per_kg seg2 = replicate n (Finite Vconst)) \<and>
   (path_const_p_ideal Pconst Te Tf R n s_e gamma = Inr seg3
      \<longrightarrow> map P_kPa seg3 = replicate n (Finite Pconst)) \<and>
   (path_isothermal_ideal Tconst Vg Vh R n s_g = Inr seg4
      \<longrightarrow> map T_K seg4 = replicate n (Finite Tconst))"
  by (intro conjI impI)
    (erule isentropic_entropy const_v_volume const_p_pressure isothermal_temperature)+

theorem process_law_fixed_quantity_witness:
  "(\<exists>seg. path_isentropic_ideal 100 1 300 1800 (1 / 8) (7 / 5) (287 / 1000) 90 0 = Inr seg
       \<and> map s_kJ_per_kgK seg = replicate 90 (Finite 0)) \<and>
   (\<exists>seg. path_const_v_ideal 1 300 600 (287 / 1000) 70 0 (7 / 5) = Inr seg
       \<and> map v_m3_per_kg seg = replicate 70 (Finite 1)) \<and>
   (\<exists>seg. path_const_p_ideal 100 300 600 (287 / 1000) 70 0 (7 / 5) = Inr seg
       \<and> map P_kPa seg = replicate 70 (Finite 100)) \<and>
   (\<exists>seg. path_isothermal_ideal 300 1 2 (287 / 1000) 90 0 = Inr seg
       \<and> map T_K seg = replicate 90 (Finite 300))"
proof -
  obtain s1 where a: "path_isentropic_ideal 100 1 300 1800 (1 / 8) (7 / 5) (287 / 1000) 90 0 = Inr s1"
    by (simp add: path_isentropic_ideal_def py_pow_def bind_err_def)
  obtain s2 where b: "path_const_v_ideal 1 300 600 (287 / 1000) 70 0 (7 / 5) = Inr s2"
    by (simp add: path_const_v_ideal_def cv_from_gamma_R_def py_div_def bind_err_def)
  obtain s3 where c: "path_const_p_ideal 100 300 600 (287 / 1000) 70 0 (7 / 5) = Inr s3"
    by (simp add: path_const_p_ideal_def cv_from_gamma_R_def py_div_def bind_err_def)
  obtain s4 where d: "path_isothermal_ideal 300 1 2 (287 / 1000) 90 0 = Inr s4"
    by (simp add: path_isothermal_ideal_def)
  note t = process_law_fixed_quantity
  show ?thesis
    using a b c d
      t [THEN conjunct1, rule_format, OF a]
      t [THEN conjunct2, THEN conjunct1, rule_format, OF b]
      t [THEN conjunct2, THEN conjunct2, THEN conjunct1, rule_format, OF c]
      t [THEN conjunct2, THEN conjunct2, THEN conjunct2, rule_format, OF d]
    by simp
qed



subsection \<open>The path sampler\<close>

lemma path_isentropic_errors:
  "path_isentropic_ideal Pa Va Ta Pb Vb gamma R n s_a = Inl e \<Longrightarrow> e = ZeroDivisionError"
  by (auto simp: path_isentropic_ideal_def py_pow_def bind_err_Inl_iff Let_def split: if_splits)

lemma cv_from_gamma_R_errors: "cv_from_gamma_R gamma R = Inl e \<Longrightarrow> e = ZeroDivisionError"
  by (auto simp: cv_from_gamma_R_def py_div_def bind_err_Inl_iff split: if_splits)

lemma path_const_v_errors:
  "path_const_v_ideal Vconst Ta Tb R n s_a gamma = Inl e \<Longrightarrow> e = ZeroDivisionError"
  by (auto simp: path_const_v_ideal_def bind_err_Inl_iff dest: cv_from_gamma_R_errors split: prod.splits)

lemma path_const_p_errors:
  "path_const_p_ideal Pconst Ta Tb R n s_a gamma = Inl e \<Longrightarrow> e = ZeroDivisionError"
  by (auto simp: path_const_p_ideal_def bind_err_Inl_iff dest: cv_from_gamma_R_errors split: prod.splits)

lemma series_get_errors: "series_get a c = Inl e \<Longrightarrow> e = KeyError c"
  by (auto simp: series_get_def split: option.splits)

lemma process_law_ValueError:
  "process_law kind a b gamma R s_a = Inl (ValueError m)
     \<Longrightarrow> kind \<notin> {''isen'', ''cv'', ''cp'', ''isoth''} \<and> m = ''Unknown leg kind: '' @ kind"
  by (auto simp: process_law_def bind_err_Inl_iff path_isothermal_ideal_def
      dest: series_get_errors path_isentropic_errors path_const_v_errors path_const_p_errors
      split: if_splits)

lemma process_law_unknown:
  "kind \<notin> {''isen'', ''cv'', ''cp'', ''isoth''}
     \<Longrightarrow> process_law kind a b gamma R s_a = Inl (ValueError (''Unknown leg kind: '' @ kind))"
  by (simp add: process_law_def)

lemma row_errors: "row df k = Inl e \<Longrightarrow> e = KeyError ''State'' \<or> e = IndexError"
  by (auto simp: row_def split: option.splits)

lemma row_not_ValueError [simp]: "row df k \<noteq> Inl (ValueError m)"
  using row_errors by fastforce

lemma series_get_not_ValueError [simp]: "series_get a c \<noteq> Inl (ValueError m)"
  using series_get_errors by fastforce

lemma row_names: "row df k = Inr a \<Longrightarrow> map fst a = map fst df"
  by (auto simp: row_def split: option.splits)

lemma choose_scol_in: "choose_scol df = Some c \<Longrightarrow> c \<in> set (map fst df)"
  by (auto simp: choose_scol_def split: if_splits)

lemma entropy_anchor_ok:
  assumes "row df k = Inr a"
  shows "\<exists>s. entropy_anchor (choose_scol df) a = Inr s"
proof (cases "choose_scol df")
  case None
  then show ?thesis by (simp add: entropy_anchor_def)
next
  case (Some c)
  then have "c \<in> fst ` set a"
    using choose_scol_in [OF Some] row_names [OF assms] by (metis set_map)
  then obtain x where "map_of a c = Some x"
    by (metis domD dom_map_of_conv_image_fst)
  then show ?thesis using Some by (simp add: entropy_anchor_def series_get_def)
qed

lemma leg_segment_ValueError_iff:
  "leg_segment df (choose_scol df) gamma R (kind, i, j) = Inl (ValueError m) \<longleftrightarrow>
     kind \<notin> {''isen'', ''cv'', ''cp'', ''isoth''} \<and> m = ''Unknown leg kind: '' @ kind
       \<and> (\<exists>a b. row df i = Inr a \<and> row df j = Inr b)"
  (is "?L \<longleftrightarrow> ?R")
proof
  assume ?L
  then obtain a b s where "row df i = Inr a" "row df j = Inr b"
    "process_law kind a b gamma R s = Inl (ValueError m)"
    by (auto simp: leg_segment_def bind_err_Inl_iff entropy_anchor_def split: option.splits)
  then show ?R using process_law_ValueError by blast
next
  assume r: ?R
  then obtain a b where ab: "row df i = Inr a" "row df j = Inr b" by blast
  obtain s where "entropy_anchor (choose_scol df) a = Inr s"
    using entropy_anchor_ok [OF ab(1)] by blast
  then show ?L
    using r ab process_law_unknown [of kind a b gamma R s]
    by (simp add: leg_segment_def bind_err_def)
qed

lemma legs_loop_ValueError_iff:
  "legs_loop df (choose_scol df) gamma R idx legs = Inl (ValueError m) \<longleftrightarrow>
     (\<exists>pre k i j post. legs = pre @ (k, i, j) # post
        \<and> k \<notin> {''isen'', ''cv'', ''cp'', ''isoth''} \<and> m = ''Unknown leg kind: '' @ k
        \<and> (\<forall>l \<in> set pre. \<exists>seg. leg_segment df (choose_scol df) gamma R l = Inr seg)
        \<and> (\<exists>a b. row df i = Inr a \<and> row df j = Inr b))"
proof (induction legs arbitrary: idx)
  case Nil
  then show ?case by simp
next
  case (Cons leg legs)
  obtain kind i j where leg: "leg = (kind, i, j)" by (cases leg) auto
  show ?case
  proof (cases "leg_segment df (choose_scol df) gamma R leg")
    case (Inl e)
    have "(\<exists>pre k i' j' post. leg # legs = pre @ (k, i', j') # post
        \<and> k \<notin> {''isen'', ''cv'', ''cp'', ''isoth''} \<and> m = ''Unknown leg kind: '' @ k
        \<and> (\<forall>l \<in> set pre. \<exists>seg. leg_segment df (choose_scol df) gamma R l = Inr seg)
        \<and> (\<exists>a b. row df i' = Inr a \<and> row df j' = Inr b))
      \<longleftrightarrow> (kind \<notin> {''isen'', ''cv'', ''cp'', ''isoth''} \<and> m = ''Unknown leg kind: '' @ kind
        \<and> (\<exists>a b. row df i = Inr a \<and> row df j = Inr b))" (is "?A \<longleftrightarrow> ?B")
    proof
      assume ?A
      then obtain pre k i' j' post where p: "leg # legs = pre @ (k, i', j') # post"
        "k \<notin> {''isen'', ''cv'', ''cp'', ''isoth''}" "m = ''Unknown leg kind: '' @ k"
        "\<forall>l \<in> set pre. \<exists>seg. leg_segment df (choose_scol df) gamma R l = Inr seg"
        "\<exists>a b. row df i' = Inr a \<and> row df j' = Inr b" by blast
      have "pre = []"
      proof (cases pre)
        case (Cons x xs)
        with p(1) have "x = leg" by simp
        with p(4) Cons Inl show ?thesis by auto
      qed simp
      with p leg show ?B by auto
    next
      assume b: ?B
      have "leg # legs = [] @ (kind, i, j) # legs" using leg by simp
      with b show ?A by (metis empty_iff list.set(1))
    qed
    then show ?thesis
      using Inl leg leg_segment_ValueError_iff [of df gamma R kind i j m]
      by (auto simp: bind_err_def)
  next
    case (Inr seg)
    have "(\<exists>pre k i' j' post. leg # legs = pre @ (k, i', j') # post
        \<and> k \<notin> {''isen'', ''cv'', ''cp'', ''isoth''} \<and> m = ''Unknown leg kind: '' @ k
        \<and> (\<forall>l \<in> set pre. \<exists>seg. leg_segment df (choose_scol df) gamma R l = Inr seg)
        \<and> (\<exists>a b. row df i' = Inr a \<and> row df j' = Inr b))
      \<longleftrightarrow> (\<exists>pre k i' j' post. legs = pre @ (k, i', j') # post
        \<and> k \<notin> {''isen'', ''cv'', ''cp'', ''isoth''} \<and> m = ''Unknown leg kind: '' @ k
        \<and> (\<forall>l \<in> set pre. \<exists>seg. leg_segment df (choose_scol df) gamma R l = Inr seg)
        \<and> (\<exists>a b. row df i' = Inr a \<and> row df j' = Inr b))" (is "?A \<longleftrightarrow> ?B")
    proof
      assume ?A
      then obtain pre k i' j' post where p: "leg # legs = pre @ (k, i', j') # post"
        "k \<notin> {''isen'', ''cv'', ''cp'', ''isoth''}" "m = ''Unknown leg kind: '' @ k"
        "\<forall>l \<in> set pre. \<exists>seg. leg_segment df (choose_scol df) gamma R l = Inr seg"
        "\<exists>a b. row df i' = Inr a \<and> row df j' = Inr b" by blast
      show ?B
      proof (cases pre)
        case Nil
        with p(1) have "leg = (k, i', j')" by simp
        then have "leg_segment df (choose_scol df) gamma R leg = Inl (ValueError m)"
          using p leg_segment_ValueError_iff [of df gamma R k i' j' m] by simp
        with Inr show ?thesis by simp
      next
        case (Cons x xs)
        with p(1) have "legs = xs @ (k, i', j') # post" by simp
        moreover have "\<forall>l \<in> set xs. \<exists>seg. leg_segment df (choose_scol df) gamma R l = Inr seg"
          using p(4) Cons by simp
        ultimately show ?thesis using p(2,3,5) by blast
      qed
    next
      assume ?B
      then obtain pre k i' j' post where p: "legs = pre @ (k, i', j') # post"
        "k \<notin> {''isen'', ''cv'', ''cp'', ''isoth''}" "m = ''Unknown leg kind: '' @ k"
        "\<forall>l \<in> set pre. \<exists>seg. leg_segment df (choose_scol df) gamma R l = Inr seg"
        "\<exists>a b. row df i' = Inr a \<and> row df j' = Inr b" by blast
      have "leg # legs = (leg # pre) @ (k, i', j') # post" using p(1) by simp
      moreover have "\<forall>l \<in> set (leg # pre). \<exists>seg. leg_segment df (choose_scol df) gamma R l = Inr seg"
        using p(4) Inr by simp
      ultimately show ?A using p(2,3,5) by blast
    qed
    moreover have "legs_loop df (choose_scol df) gamma R idx (leg # legs) = Inl (ValueError m)
      \<longleftrightarrow> legs_loop df (choose_scol df) gamma R (Suc idx) legs = Inl (ValueError m)"
      using Inr by (auto simp: bind_err_def split: sum.splits)
    ultimately show ?thesis using Cons.IH [of "Suc idx"] by simp
  qed
qed


lemma legs_loop_Nil_iff:
  "legs_loop df scol gamma R idx legs = Inr [] \<longleftrightarrow> legs = []"
  by (cases legs) (auto simp: bind_err_def split: sum.splits)

lemma smooth_path_ValueError_iff:
  "smooth_path_ideal df legs gamma R = Inl (ValueError (''Unknown leg kind: '' @ k)) \<longleftrightarrow>
     legs_loop df (choose_scol df) gamma R 0 legs = Inl (ValueError (''Unknown leg kind: '' @ k))"
  by (auto simp: smooth_path_ideal_def Let_def bind_err_def split: sum.splits)


lemma leg_segment_Inr:
  "leg_segment df scol gamma R (kind, i, j) = Inr seg \<longleftrightarrow>
     (\<exists>a b s_a. row df i = Inr a \<and> row df j = Inr b \<and> entropy_anchor scol a = Inr s_a
        \<and> process_law kind a b gamma R s_a = Inr seg)"
  by (simp add: leg_segment_def bind_err_Inr_iff)







lemmas sampler_defs =
  smooth_path_ideal_def choose_scol_def leg_segment_def row_def entropy_anchor_def
  series_get_def process_law_def path_isentropic_ideal_def path_const_v_ideal_def
  path_const_p_ideal_def path_isothermal_ideal_def cv_from_gamma_R_def py_div_def py_pow_def
  bind_err_def

text \<open>
  C9. The sampler raises the unsupported-process error \<open>Unknown leg kind: k\<close> exactly
  when some leg has the unrecognised kind \<open>k\<close>, the labels of that leg resolve, and
  every leg before it was sampled without an error; so for a list of legs of the four
  recognised kinds the error is never raised. The rows of a leg are looked up before its
  kind is examined, and an earlier leg that fails ends the call first.
\<close>

theorem unsupported_process_iff:
  "(smooth_path_ideal df legs gamma R = Inl (ValueError (''Unknown leg kind: '' @ k)) \<longleftrightarrow>
      (\<exists>pre i j post. legs = pre @ (k, i, j) # post
         \<and> k \<notin> {''isen'', ''cv'', ''cp'', ''isoth''}
         \<and> (\<forall>l \<in> set pre. \<exists>seg. leg_segment df (choose_scol df) gamma R l = Inr seg)
         \<and> (\<exists>a b. row df i = Inr a \<and> row df j = Inr b))) \<and>
   ((\<forall>l \<in> set legs. fst l \<in> {''isen'', ''cv'', ''cp'', ''isoth''})
      \<longrightarrow> smooth_path_ideal df legs gamma R \<noteq> Inl (ValueError (''Unknown leg kind: '' @ k)))"
proof -
  have a: "smooth_path_ideal df legs gamma R = Inl (ValueError (''Unknown leg kind: '' @ k)) \<longleftrightarrow>
      (\<exists>pre i j post. legs = pre @ (k, i, j) # post
         \<and> k \<notin> {''isen'', ''cv'', ''cp'', ''isoth''}
         \<and> (\<forall>l \<in> set pre. \<exists>seg. leg_segment df (choose_scol df) gamma R l = Inr seg)
         \<and> (\<exists>a b. row df i = Inr a \<and> row df j = Inr b))"
    unfolding smooth_path_ValueError_iff legs_loop_ValueError_iff by auto
  have "smooth_path_ideal df legs gamma R \<noteq> Inl (ValueError (''Unknown leg kind: '' @ k))"
    if r: "\<forall>l \<in> set legs. fst l \<in> {''isen'', ''cv'', ''cp'', ''isoth''}"
  proof
    assume "smooth_path_ideal df legs gamma R = Inl (ValueError (''Unknown leg kind: '' @ k))"
    then obtain pre i j post where "legs = pre @ (k, i, j) # post"
      "k \<notin> {''isen'', ''cv'', ''cp'', ''isoth''}" using a by blast
    then have "(k, i, j) \<in> set legs" by simp
    with r have "k \<in> {''isen'', ''cv'', ''cp'', ''isoth''}" by fastforce
    with \<open>k \<notin> _\<close> show False by blast
  qed
  with a show ?thesis by blast
qed

theorem unsupported_process_iff_witness:
  "smooth_path_ideal example_states [(''cv'', 1, 2), (''adiabatic'', 2, 1)] (7 / 5) (287 / 1000)
     = Inl (ValueError ''Unknown leg kind: adiabatic'') \<and>
   smooth_path_ideal example_states [(''cv'', 1, 2), (''isen'', 2, 1)] (7 / 5) (287 / 1000)
     \<noteq> Inl (ValueError ''Unknown leg kind: adiabatic'')"
proof -
  have 1: "\<exists>pre i j post. [(''cv'', 1, 2), (''adiabatic'', 2, 1)] = pre @ (''adiabatic'', i, j) # post
         \<and> ''adiabatic'' \<notin> {''isen'', ''cv'', ''cp'', ''isoth''}
         \<and> (\<forall>l \<in> set pre. \<exists>seg.
               leg_segment example_states (choose_scol example_states) (7 / 5) (287 / 1000) l = Inr seg)
         \<and> (\<exists>a b. row example_states i = Inr a \<and> row example_states j = Inr b)"
    by (rule exI [of _ "[(''cv'', 1, 2)]"], rule exI [of _ 2], rule exI [of _ 1],
        rule exI [of _ "[]"]) (simp add: sampler_defs)
  have 2: "\<forall>l \<in> set [(''cv'', 1::int, 2::int), (''isen'', 2, 1)].
      fst l \<in> {''isen'', ''cv'', ''cp'', ''isoth''}"
    by simp
  show ?thesis
    using unsupported_process_iff [of example_states "[(''cv'', 1, 2), (''adiabatic'', 2, 1)]"
          "7 / 5" "287 / 1000" "''adiabatic''", THEN conjunct1, THEN iffD2, OF 1]
      unsupported_process_iff [of example_states "[(''cv'', 1, 2), (''isen'', 2, 1)]"
          "7 / 5" "287 / 1000" "''adiabatic''", THEN conjunct2, THEN mp, OF 2]
    by simp
qed

theorem unsupported_process_counterexample:
  "''adiabatic'' \<notin> {''isen'', ''cv'', ''cp'', ''isoth''} \<and>
   smooth_path_ideal example_states [(''adiabatic'', 3, 1)] (7 / 5) (287 / 1000) = Inl IndexError"
  by (simp add: sampler_defs)


lemma entropy_anchor_cases:
  "entropy_anchor scol a = Inr s_a
     \<Longrightarrow> (scol = None \<and> s_a = 0) \<or> (\<exists>c. scol = Some c \<and> map_of a c = Some s_a)"
  by (auto simp: entropy_anchor_def series_get_def split: option.splits)

lemma legs_loop_segments:
  "legs_loop df scol gamma R idx legs = Inr out
     \<Longrightarrow> \<exists>segs. out = map (\<lambda>(n, seg). if 0 < n then drop 1 seg else seg) (enumerate idx segs)
           \<and> list_all2 (\<lambda>leg seg. leg_segment df scol gamma R leg = Inr seg) legs segs"
proof (induction legs arbitrary: idx out)
  case Nil
  then show ?case by simp
next
  case (Cons leg legs)
  from Cons.prems obtain seg out' where
    s: "leg_segment df scol gamma R leg = Inr seg"
    and o: "legs_loop df scol gamma R (Suc idx) legs = Inr out'"
    and out: "out = (if 0 < idx then drop 1 seg else seg) # out'"
    by (auto simp: bind_err_Inr_iff)
  from Cons.IH [OF o] obtain segs where
    i: "out' = map (\<lambda>(n, seg). if 0 < n then drop 1 seg else seg) (enumerate (Suc idx) segs)"
    "list_all2 (\<lambda>leg seg. leg_segment df scol gamma R leg = Inr seg) legs segs"
    by blast
  have "out = map (\<lambda>(n, seg). if 0 < n then drop 1 seg else seg) (enumerate idx (seg # segs))"
    using out i(1) by simp
  moreover have "list_all2 (\<lambda>leg seg. leg_segment df scol gamma R leg = Inr seg) (leg # legs) (seg # segs)"
    using s i(2) by simp
  ultimately show ?case by blast
qed

lemma leg_segment_anchor:
  assumes "leg_segment df (choose_scol df) gamma R leg = Inr seg"
  shows "case leg of (kind, i, j) \<Rightarrow>
           \<exists>a b s_a. row df i = Inr a \<and> row df j = Inr b
             \<and> (case choose_scol df of None \<Rightarrow> s_a = 0 | Some c \<Rightarrow> map_of a c = Some s_a)
             \<and> process_law kind a b gamma R s_a = Inr seg"
proof -
  obtain kind i j where leg: "leg = (kind, i, j)" by (cases leg) auto
  from assms obtain a b s_a where "row df i = Inr a" "row df j = Inr b"
    "entropy_anchor (choose_scol df) a = Inr s_a" "process_law kind a b gamma R s_a = Inr seg"
    unfolding leg leg_segment_Inr by blast
  then show ?thesis
    using entropy_anchor_cases [of "choose_scol df" a s_a] leg by (auto split: option.splits)
qed

text \<open>
  C3. A sampled path is the first leg's segment followed by the segments of the later
  legs without their first samples, and the segment of every leg, the first one and the
  later ones alike, is what the process law of its kind gives for the entropy anchor
  read from the row of the leg's own start state: the cell of the state table's entropy
  column there, and 0 when the table has no entropy column. So no entropy is carried
  over from the samples of the previous leg.
\<close>

theorem leg_entropy_anchor:
  assumes "smooth_path_ideal df legs gamma R = Inr p"
  shows "\<exists>segs.
           rows p = concat (map (\<lambda>(n, seg). if 0 < n then drop 1 seg else seg) (enumerate 0 segs))
         \<and> list_all2
             (\<lambda>(kind, i, j) seg.
                \<exists>a b s_a. row df i = Inr a \<and> row df j = Inr b
                  \<and> (case choose_scol df of None \<Rightarrow> s_a = 0 | Some c \<Rightarrow> map_of a c = Some s_a)
                  \<and> process_law kind a b gamma R s_a = Inr seg)
             legs segs"
proof -
  from assms obtain out where o: "legs_loop df (choose_scol df) gamma R 0 legs = Inr out"
    and p: "rows p = concat out"
    by (auto simp: smooth_path_ideal_def Let_def bind_err_Inr_iff split: if_splits)
  from legs_loop_segments [OF o] obtain segs where
    s: "out = map (\<lambda>(n, seg). if 0 < n then drop 1 seg else seg) (enumerate 0 segs)"
    and l: "list_all2 (\<lambda>leg seg. leg_segment df (choose_scol df) gamma R leg = Inr seg) legs segs"
    by blast
  have "list_all2
             (\<lambda>(kind, i, j) seg.
                \<exists>a b s_a. row df i = Inr a \<and> row df j = Inr b
                  \<and> (case choose_scol df of None \<Rightarrow> s_a = 0 | Some c \<Rightarrow> map_of a c = Some s_a)
                  \<and> process_law kind a b gamma R s_a = Inr seg)
             legs segs"
    by (rule list_all2_mono [OF l]) (use leg_segment_anchor in fastforce)
  with p s show ?thesis by blast
qed

lemma example_two_isentropic_legs:
  "\<exists>seg1 seg2.
     leg_segment example_states (choose_scol example_states) (7 / 5) (287 / 1000) (''isen'', 1, 2) = Inr seg1
   \<and> leg_segment example_states (choose_scol example_states) (7 / 5) (287 / 1000) (''isen'', 2, 1) = Inr seg2
   \<and> map s_kJ_per_kgK seg1 = replicate 90 (Finite 0)
   \<and> map s_kJ_per_kgK seg2 = replicate 90 (Finite 5)
   \<and> smooth_path_ideal example_states [(''isen'', 1, 2), (''isen'', 2, 1)] (7 / 5) (287 / 1000)
       = Inr \<lparr> s_column = ''s_kJ_per_kgK'', rows = seg1 @ drop 1 seg2 \<rparr>"
proof -
  let ?sc = "choose_scol example_states"
  have a1: "row example_states 1 = Inr [(''State'', 1), (''P_kPa'', 100), (''T_K'', 300),
      (''v_m3_per_kg'', 861 / 1000), (''s_kJ_per_kgK'', 0)]"
    by (simp add: row_def)
  have a2: "row example_states 2 = Inr [(''State'', 2), (''P_kPa'', 200), (''T_K'', 600),
      (''v_m3_per_kg'', 861 / 1000), (''s_kJ_per_kgK'', 5)]"
    by (simp add: row_def)
  have sc: "?sc = Some ''s_kJ_per_kgK''" by (simp add: choose_scol_def)
  obtain seg1 where p1: "path_isentropic_ideal 100 (861 / 1000) 300 200 (861 / 1000) (7 / 5) (287 / 1000) 90 0 = Inr seg1"
    by (simp add: path_isentropic_ideal_def py_pow_def bind_err_def)
  obtain seg2 where p2: "path_isentropic_ideal 200 (861 / 1000) 600 100 (861 / 1000) (7 / 5) (287 / 1000) 90 5 = Inr seg2"
    by (simp add: path_isentropic_ideal_def py_pow_def bind_err_def)
  have l1: "leg_segment example_states ?sc (7 / 5) (287 / 1000) (''isen'', 1, 2) = Inr seg1"
    using p1 by (simp add: leg_segment_def a1 a2 sc entropy_anchor_def series_get_def
        process_law_def bind_err_def)
  have l2: "leg_segment example_states ?sc (7 / 5) (287 / 1000) (''isen'', 2, 1) = Inr seg2"
    using p2 by (simp add: leg_segment_def a1 a2 sc entropy_anchor_def series_get_def
        process_law_def bind_err_def)
  have "smooth_path_ideal example_states [(''isen'', 1, 2), (''isen'', 2, 1)] (7 / 5) (287 / 1000)
       = Inr \<lparr> s_column = ''s_kJ_per_kgK'', rows = seg1 @ drop 1 seg2 \<rparr>"
    using l1 l2 sc by (simp add: smooth_path_ideal_def Let_def bind_err_def)
  then show ?thesis
    using l1 l2 isentropic_entropy [OF p1] isentropic_entropy [OF p2] by blast
qed

theorem entropy_anchor_counterexample:
  "\<exists>p. smooth_path_ideal example_states [(''isen'', 1, 2), (''isen'', 2, 1)] (7 / 5) (287 / 1000) = Inr p
     \<and> length (rows p) = 179
     \<and> s_kJ_per_kgK (rows p ! 89) = Finite 0
     \<and> s_kJ_per_kgK (rows p ! 90) = Finite 5"
proof -
  obtain seg1 seg2 where
    m1: "map s_kJ_per_kgK seg1 = replicate 90 (Finite 0)"
    and m2: "map s_kJ_per_kgK seg2 = replicate 90 (Finite 5)"
    and p: "smooth_path_ideal example_states [(''isen'', 1, 2), (''isen'', 2, 1)] (7 / 5) (287 / 1000)
       = Inr \<lparr> s_column = ''s_kJ_per_kgK'', rows = seg1 @ drop 1 seg2 \<rparr>"
    using example_two_isentropic_legs by blast
  have len: "length seg1 = 90" "length seg2 = 90"
    using m1 m2 by (metis length_map length_replicate)+
  have "map s_kJ_per_kgK (seg1 @ drop 1 seg2) = replicate 90 (Finite 0) @ replicate 89 (Finite 5)"
    using m1 m2 by (simp add: drop_map [symmetric])
  then have "map s_kJ_per_kgK (seg1 @ drop 1 seg2) ! 89 = Finite 0"
    "map s_kJ_per_kgK (seg1 @ drop 1 seg2) ! 90 = Finite 5"
    by (simp_all add: nth_append)
  then have "s_kJ_per_kgK ((seg1 @ drop 1 seg2) ! 89) = Finite 0"
    "s_kJ_per_kgK ((seg1 @ drop 1 seg2) ! 90) = Finite 5"
    using len by (simp_all only: nth_map length_append length_drop)
  with p len show ?thesis by simp
qed

theorem leg_entropy_anchor_witness:
  "\<exists>p seg1 seg2 a b.
     smooth_path_ideal example_states [(''isen'', 1, 2), (''isen'', 2, 1)] (7 / 5) (287 / 1000) = Inr p
     \<and> rows p = seg1 @ drop 1 seg2
     \<and> row example_states 2 = Inr a \<and> row example_states 1 = Inr b
     \<and> map_of a ''s_kJ_per_kgK'' = Some 5
     \<and> process_law ''isen'' a b (7 / 5) (287 / 1000) 5 = Inr seg2"
proof -
  obtain p where
    p: "smooth_path_ideal example_states [(''isen'', 1, 2), (''isen'', 2, 1)] (7 / 5) (287 / 1000) = Inr p"
    using example_two_isentropic_legs by blast
  have sc: "choose_scol example_states = Some ''s_kJ_per_kgK''" by (simp add: choose_scol_def)
  from leg_entropy_anchor [OF p] obtain segs where
    r: "rows p = concat (map (\<lambda>(n, seg). if 0 < n then drop 1 seg else seg) (enumerate 0 segs))"
    and l: "list_all2
             (\<lambda>(kind, i, j) seg.
                \<exists>a b s_a. row example_states i = Inr a \<and> row example_states j = Inr b
                  \<and> map_of a ''s_kJ_per_kgK'' = Some s_a
                  \<and> process_law kind a b (7 / 5) (287 / 1000) s_a = Inr seg)
             [(''isen'', 1, 2), (''isen'', 2, 1)] segs"
    unfolding sc by auto
  from l obtain seg1 seg2 where segs: "segs = [seg1, seg2]"
    and l2: "\<exists>a b s_a. row example_states 2 = Inr a \<and> row example_states 1 = Inr b
                  \<and> map_of a ''s_kJ_per_kgK'' = Some s_a
                  \<and> process_law ''isen'' a b (7 / 5) (287 / 1000) s_a = Inr seg2"
    by (auto simp: list_all2_Cons1)
  from l2 obtain a b s_a where ab: "row example_states 2 = Inr a" "row example_states 1 = Inr b"
    "map_of a ''s_kJ_per_kgK'' = Some s_a"
    "process_law ''isen'' a b (7 / 5) (287 / 1000) s_a = Inr seg2"
    by blast
  from ab(1) have "a = [(''State'', 2), (''P_kPa'', 200), (''T_K'', 600),
      (''v_m3_per_kg'', 861 / 1000), (''s_kJ_per_kgK'', 5)]"
    by (simp add: row_def)
  with ab(3) have "s_a = 5" by simp
  moreover have "rows p = seg1 @ drop 1 seg2" using r segs by simp
  ultimately show ?thesis using p ab by blast
qed






subsection \<open>The Otto efficiency\<close>

lemma py_div_Inr_iff: "py_div a b = Inr q \<longleftrightarrow> b \<noteq> 0 \<and> q = a / b"
  by (auto simp: py_div_def)

lemma otto_cycle_Inr:
  assumes "otto_cycle T1 P1 r T3 g R = Inr (st, m)"
  shows "1 < r" "T1 < T3" "g \<noteq> 1" "P1 \<noteq> 0" "R * T1 \<noteq> 0"
    "R / (g - 1) * (T3 - T1 * r powr (g - 1)) \<noteq> 0"
    "m = [(''eta_th'', Num (1 - R / (g - 1) * (T3 / r powr (g - 1) - T1)
                               / (R / (g - 1) * (T3 - T1 * r powr (g - 1))))),
          (''Qin_kJ_per_kg'', Num (R / (g - 1) * (T3 - T1 * r powr (g - 1)))),
          (''Qout_kJ_per_kg'', Num (R / (g - 1) * (T3 / r powr (g - 1) - T1))),
          (''Wnet_kJ_per_kg'', Num (R / (g - 1) * (T3 - T1 * r powr (g - 1))
                                    - R / (g - 1) * (T3 / r powr (g - 1) - T1))),
          (''compression_ratio_r'', Num r)]"
    "\<exists>P2 P3 P4 T2 T4 v2 v3 v4 ss.
       st = [(''State'', [Finite 1, Finite 2, Finite 3, Finite 4]),
             (''P_kPa'', [Finite P1, P2, P3, P4]),
             (''T_K'', [Finite T1, T2, Finite T3, T4]),
             (''v_m3_per_kg'', [Finite (R * T1 / P1), v2, v3, v4]),
             (''s_rel_kJ_per_kgK'', ss)]"
  using assms
  unfolding otto_cycle_def Let_def
  by (auto simp: bind_err_Inr_iff py_div_Inr_iff split: if_splits)


lemma otto_ratio:
  fixes r c T1 T3 g :: real
  assumes "1 < r" and "c * (T3 - T1 * r powr (g - 1)) \<noteq> 0"
  shows "c * (T3 / r powr (g - 1) - T1) / (c * (T3 - T1 * r powr (g - 1))) = r powr (1 - g)"
proof -
  let ?k = "r powr (g - 1)"
  have "r \<noteq> 0" using assms(1) by simp
  then have k: "0 < ?k" by simp
  have c: "c \<noteq> 0" and d: "T3 - T1 * ?k \<noteq> 0" using assms(2) by auto
  have "T3 / ?k - T1 = (T3 - T1 * ?k) / ?k" using k by (simp add: field_simps)
  then have "c * (T3 / ?k - T1) / (c * (T3 - T1 * ?k)) = 1 / ?k"
    using c d k by (simp add: field_simps)
  also have "1 / ?k = r powr (- (g - 1))" by (simp only: powr_minus_divide)
  also have "- (g - 1) = 1 - g" by simp
  finally show ?thesis .
qed

lemma otto_cycle_eta:
  assumes "otto_cycle T1 P1 r T3 g R = Inr (st, m)"
  shows "map_of m ''eta_th'' = Some (Num (1 - r powr (1 - g)))"
proof -
  note i = otto_cycle_Inr [OF assms]
  have "R / (g - 1) * (T3 / r powr (g - 1) - T1) / (R / (g - 1) * (T3 - T1 * r powr (g - 1)))
      = r powr (1 - g)"
    by (rule otto_ratio [OF i(1) i(6)])
  then show ?thesis unfolding i(7) by simp
qed

lemma otto_cycle_returns:
  assumes "1 < r" "T1 < T3" "g \<noteq> 1" "P1 \<noteq> 0" "R \<noteq> 0" "T1 \<noteq> 0"
    "T3 \<noteq> T1 * r powr (g - 1)"
  shows "\<exists>st m. otto_cycle T1 P1 r T3 g R = Inr (st, m)"
proof -
  have "r \<noteq> 0" using assms(1) by simp
  then have "r powr (g - 1) \<noteq> 0" "r powr g \<noteq> 0" by simp_all
  then show ?thesis
    using assms unfolding otto_cycle_def Let_def
    by (simp add: bind_err_def py_div_def)
qed

text \<open>
  C2. Whenever the Otto solver reports an efficiency, the compression ratio exceeds 1,
  \<open>T3\<close> exceeds \<open>T1\<close>, and the efficiency is \<open>1 - r powr (1 - gamma)\<close>: the
  same for all \<open>T1\<close>, \<open>P1\<close>, \<open>T3\<close> and \<open>R\<close>. The solver reports one for
  every input that passes the two guards, except where a division by zero stops it.
\<close>

theorem otto_efficiency:
  "(otto_cycle T1 P1 r T3 g R = Inr (st, m)
      \<longrightarrow> 1 < r \<and> T1 < T3 \<and> map_of m ''eta_th'' = Some (Num (1 - r powr (1 - g)))) \<and>
   (otto_cycle T1 P1 r T3 g R = Inr (st, m) \<and> otto_cycle T1' P1' r T3' g R' = Inr (st', m')
      \<longrightarrow> map_of m' ''eta_th'' = map_of m ''eta_th'') \<and>
   (1 < r \<and> T1 < T3 \<and> g \<noteq> 1 \<and> P1 \<noteq> 0 \<and> R \<noteq> 0 \<and> T1 \<noteq> 0 \<and> T3 \<noteq> T1 * r powr (g - 1)
      \<longrightarrow> (\<exists>st m. otto_cycle T1 P1 r T3 g R = Inr (st, m)))"
proof (intro conjI impI)
  assume a: "otto_cycle T1 P1 r T3 g R = Inr (st, m)"
  show "1 < r" by (rule otto_cycle_Inr(1) [OF a])
  show "T1 < T3" by (rule otto_cycle_Inr(2) [OF a])
  show "map_of m ''eta_th'' = Some (Num (1 - r powr (1 - g)))" by (rule otto_cycle_eta [OF a])
next
  assume "otto_cycle T1 P1 r T3 g R = Inr (st, m) \<and> otto_cycle T1' P1' r T3' g R' = Inr (st', m')"
  then have "map_of m ''eta_th'' = Some (Num (1 - r powr (1 - g)))"
    and "map_of m' ''eta_th'' = Some (Num (1 - r powr (1 - g)))"
    using otto_cycle_eta by blast+
  then show "map_of m' ''eta_th'' = map_of m ''eta_th''" by simp
next
  assume "1 < r \<and> T1 < T3 \<and> g \<noteq> 1 \<and> P1 \<noteq> 0 \<and> R \<noteq> 0 \<and> T1 \<noteq> 0 \<and> T3 \<noteq> T1 * r powr (g - 1)"
  then show "\<exists>st m. otto_cycle T1 P1 r T3 g R = Inr (st, m)"
    using otto_cycle_returns by blast
qed

theorem otto_efficiency_witness:
  "\<exists>st m. otto_cycle 300 100 8 3000 (7 / 5) (287 / 1000) = Inr (st, m)
     \<and> map_of m ''eta_th'' = Some (Num (1 - 8 powr (- (2 / 5))))"
proof -
  have "(8::real) powr (7 / 5 - 1) < 8 powr 1" by (rule powr_less_mono) simp_all
  then have h: "(1::real) < 8 \<and> (300::real) < 3000 \<and> (7 / 5 :: real) \<noteq> 1 \<and> (100::real) \<noteq> 0
      \<and> (287 / 1000 :: real) \<noteq> 0 \<and> (300::real) \<noteq> 0 \<and> (3000::real) \<noteq> 300 * 8 powr (7 / 5 - 1)"
    by simp
  note t = otto_efficiency [of 300 100 8 3000 "7 / 5" "287 / 1000"]
  obtain st m where r: "otto_cycle 300 100 8 3000 (7 / 5) (287 / 1000) = Inr (st, m)"
    using t [THEN conjunct2, THEN conjunct2, THEN mp, OF h] by blast
  have "map_of m ''eta_th'' = Some (Num (1 - 8 powr (1 - 7 / 5)))"
    using otto_efficiency [of 300 100 8 3000 "7 / 5" "287 / 1000" st m, THEN conjunct1, THEN mp, OF r]
    by simp
  then show ?thesis using r by auto
qed

subsection \<open>What a solver has computed when it returns\<close>

lemma cutoff_over_compression:
  fixes a r rc :: real
  assumes "a \<noteq> 0" and "r \<noteq> 0"
  shows "rc * (a / r) / a = rc / r"
  using assms by (simp add: field_simps)

lemma bind_err_InrE:
  assumes "bind_err m f = Inr y"
  obtains x where "m = Inr x" and "f x = Inr y"
  using assms by (auto simp: bind_err_Inr_iff)

lemma py_div_InrE:
  assumes "py_div a b = Inr q"
  obtains "b \<noteq> 0" and "q = a / b"
  using assms by (auto simp: py_div_Inr_iff)

lemma diesel_cycle_Inr:
  assumes "diesel_cycle T1 P1 r rc g R = Inr (st, m)"
  shows "1 < r" "1 < rc" "P1 \<noteq> 0"
    "m = (let cv = R / (g - 1); cp = g * cv;
              T2 = T1 * r powr (g - 1); T3 = T2 * rc;
              T4 = T3 * (rc / r) powr (g - 1);
              Qin = cp * (T3 - T2); Qout = cv * (T4 - T1)
          in [(''eta_th'', Num (1 - Qout / Qin)),
              (''Qin_kJ_per_kg'', Num Qin),
              (''Qout_kJ_per_kg'', Num Qout),
              (''Wnet_kJ_per_kg'', Num (Qin - Qout)),
              (''compression_ratio_r'', Num r),
              (''cutoff_ratio_rc'', Num rc)])"
    "\<exists>P2 P3 P4 T2 T3 T4 v2 v3 v4 ss.
       st = [(''State'', [Finite 1, Finite 2, Finite 3, Finite 4]),
             (''P_kPa'', [Finite P1, P2, P3, P4]),
             (''T_K'', [Finite T1, T2, T3, T4]),
             (''v_m3_per_kg'', [Finite (R * T1 / P1), v2, v3, v4]),
             (''s_rel_kJ_per_kgK'', ss)]"
proof -
  have ng: "\<not> r \<le> 1" "\<not> rc \<le> 1"
  proof -
    show n0: "\<not> r \<le> 1"
    proof
      assume "r \<le> 1"
      then have "\<exists>e. diesel_cycle T1 P1 r rc g R = Inl e" by (simp add: diesel_cycle_def)
      with assms show False by auto
    qed
    show n1: "\<not> rc \<le> 1"
    proof
      assume "rc \<le> 1"
      then have "\<exists>e. diesel_cycle T1 P1 r rc g R = Inl e" using n0 by (simp add: diesel_cycle_def)
      with assms show False by auto
    qed
  qed
  then have g: "1 < r" "1 < rc" by simp_all
  have rn: "r \<noteq> 0" using g by simp
  show "1 < r" "1 < rc" using g by auto
  show "P1 \<noteq> 0"
    using assms
    unfolding diesel_cycle_def Let_def if_not_P [OF ng(1)] if_not_P [OF ng(2)]
    by (elim bind_err_InrE py_div_InrE)
  show "m = (let cv = R / (g - 1); cp = g * cv;
              T2 = T1 * r powr (g - 1); T3 = T2 * rc;
              T4 = T3 * (rc / r) powr (g - 1);
              Qin = cp * (T3 - T2); Qout = cv * (T4 - T1)
          in [(''eta_th'', Num (1 - Qout / Qin)),
              (''Qin_kJ_per_kg'', Num Qin),
              (''Qout_kJ_per_kg'', Num Qout),
              (''Wnet_kJ_per_kg'', Num (Qin - Qout)),
              (''compression_ratio_r'', Num r),
              (''cutoff_ratio_rc'', Num rc)])"
    using assms
    unfolding diesel_cycle_def Let_def if_not_P [OF ng(1)] if_not_P [OF ng(2)]
    apply (elim bind_err_InrE py_div_InrE)
    apply (simp only: sum.inject prod.inject)?
    apply (elim conjE)?
    apply (hypsubst)?
    apply (simp only: cutoff_over_compression [OF _ rn])?
    done
  show "\<exists>P2 P3 P4 T2 T3 T4 v2 v3 v4 ss.
       st = [(''State'', [Finite 1, Finite 2, Finite 3, Finite 4]),
             (''P_kPa'', [Finite P1, P2, P3, P4]),
             (''T_K'', [Finite T1, T2, T3, T4]),
             (''v_m3_per_kg'', [Finite (R * T1 / P1), v2, v3, v4]),
             (''s_rel_kJ_per_kgK'', ss)]"
    using assms
    unfolding diesel_cycle_def Let_def if_not_P [OF ng(1)] if_not_P [OF ng(2)]
    apply (elim bind_err_InrE py_div_InrE)
    apply (simp only: sum.inject prod.inject)?
    apply (elim conjE)?
    apply (hypsubst)?
    apply (intro exI)?
    apply (rule refl)?
    done
qed

lemma dual_cycle_Inr:
  assumes "dual_cycle T1 P1 r alpha rc g R = Inr (st, m)"
  shows "1 < r" "1 < alpha" "1 < rc" "P1 \<noteq> 0"
    "m = (let cv = R / (g - 1); cp = g * cv;
              T2 = T1 * r powr (g - 1); T3 = alpha * T2; T4 = rc * T3;
              T5 = T4 * (rc / r) powr (g - 1);
              Qin = cv * (T3 - T2) + cp * (T4 - T3); Qout = cv * (T5 - T1)
          in [(''eta_th'', Num (1 - Qout / Qin)),
              (''Qin_kJ_per_kg'', Num Qin),
              (''Qout_kJ_per_kg'', Num Qout),
              (''Wnet_kJ_per_kg'', Num (Qin - Qout)),
              (''compression_ratio_r'', Num r),
              (''alpha_P3_over_P2'', Num alpha),
              (''cutoff_ratio_rc'', Num rc)])"
    "\<exists>P2 P3 P4 P5 T2 T3 T4 T5 v2 v3 v4 v5 ss.
       st = [(''State'', [Finite 1, Finite 2, Finite 3, Finite 4, Finite 5]),
             (''P_kPa'', [Finite P1, P2, P3, P4, P5]),
             (''T_K'', [Finite T1, T2, T3, T4, T5]),
             (''v_m3_per_kg'', [Finite (R * T1 / P1), v2, v3, v4, v5]),
             (''s_rel_kJ_per_kgK'', ss)]"
proof -
  have ng: "\<not> r \<le> 1" "\<not> alpha \<le> 1" "\<not> rc \<le> 1"
  proof -
    show n0: "\<not> r \<le> 1"
    proof
      assume "r \<le> 1"
      then have "\<exists>e. dual_cycle T1 P1 r alpha rc g R = Inl e" by (simp add: dual_cycle_def)
      with assms show False by auto
    qed
    show n1: "\<not> alpha \<le> 1"
    proof
      assume "alpha \<le> 1"
      then have "\<exists>e. dual_cycle T1 P1 r alpha rc g R = Inl e" using n0 by (simp add: dual_cycle_def)
      with assms show False by auto
    qed
    show n2: "\<not> rc \<le> 1"
    proof
      assume "rc \<le> 1"
      then have "\<exists>e. dual_cycle T1 P1 r alpha rc g R = Inl e" using n0 n1 by (simp add: dual_cycle_def)
      with assms show False by auto
    qed
  qed
  then have g: "1 < r" "1 < alpha" "1 < rc" by simp_all
  have rn: "r \<noteq> 0" using g by simp
  show "1 < r" "1 < alpha" "1 < rc" using g by auto
  show "P1 \<noteq> 0"
    using assms
    unfolding dual_cycle_def Let_def if_not_P [OF ng(1)] if_not_P [OF ng(2)] if_not_P [OF ng(3)]
    by (elim bind_err_InrE py_div_InrE)
  show "m = (let cv = R / (g - 1); cp = g * cv;
              T2 = T1 * r powr (g - 1); T3 = alpha * T2; T4 = rc * T3;
              T5 = T4 * (rc / r) powr (g - 1);
              Qin = cv * (T3 - T2) + cp * (T4 - T3); Qout = cv * (T5 - T1)
          in [(''eta_th'', Num (1 - Qout / Qin)),
              (''Qin_kJ_per_kg'', Num Qin),
              (''Qout_kJ_per_kg'', Num Qout),
              (''Wnet_kJ_per_kg'', Num (Qin - Qout)),
              (''compression_ratio_r'', Num r),
              (''alpha_P3_over_P2'', Num alpha),
              (''cutoff_ratio_rc'', Num rc)])"
    using assms
    unfolding dual_cycle_def Let_def if_not_P [OF ng(1)] if_not_P [OF ng(2)] if_not_P [OF ng(3)]
    apply (elim bind_err_InrE py_div_InrE)
    apply (simp only: sum.inject prod.inject)?
    apply (elim conjE)?
    apply (hypsubst)?
    apply (simp only: cutoff_over_compression [OF _ rn])?
    done
  show "\<exists>P2 P3 P4 P5 T2 T3 T4 T5 v2 v3 v4 v5 ss.
       st = [(''State'', [Finite 1, Finite 2, Finite 3, Finite 4, Finite 5]),
             (''P_kPa'', [Finite P1, P2, P3, P4, P5]),
             (''T_K'', [Finite T1, T2, T3, T4, T5]),
             (''v_m3_per_kg'', [Finite (R * T1 / P1), v2, v3, v4, v5]),
             (''s_rel_kJ_per_kgK'', ss)]"
    using assms
    unfolding dual_cycle_def Let_def if_not_P [OF ng(1)] if_not_P [OF ng(2)] if_not_P [OF ng(3)]
    apply (elim bind_err_InrE py_div_InrE)
    apply (simp only: sum.inject prod.inject)?
    apply (elim conjE)?
    apply (hypsubst)?
    apply (intro exI)?
    apply (rule refl)?
    done
qed

lemma brayton_ideal_Inr:
  assumes "brayton_ideal P1 T1 rp T3 g cp R = Inr (st, m)"
  shows "1 < rp" "P1 \<noteq> 0"
    "m = (let ex = (g - 1) / g;
              T2 = T1 * rp powr ex; T4 = T3 * (1 / rp) powr ex;
              Wc = cp * (T2 - T1); Wt = cp * (T3 - T4);
              Qin = cp * (T3 - T2); Qout = cp * (T4 - T1)
          in [(''Wc_kJ_per_kg'', Num Wc),
              (''Wt_kJ_per_kg'', Num Wt),
              (''Wnet_kJ_per_kg'', Num (Wt - Wc)),
              (''Qin_kJ_per_kg'', Num Qin),
              (''eta_th'', Num (1 - Qout / Qin)),
              (''back_work_ratio'', Num (Wc / Wt))])"
    "\<exists>P2 P3 P4 v2 v3 v4 ss.
       st = [(''State'', [Finite 1, Finite 2, Finite 3, Finite 4]),
             (''P_kPa'', [Finite P1, P2, P3, P4]),
             (''T_K'', [Finite T1, Finite (T1 * rp powr ((g - 1) / g)), Finite T3,
                        Finite (T3 * (1 / rp) powr ((g - 1) / g))]),
             (''v_m3_per_kg'', [Finite (R * T1 / P1), v2, v3, v4]),
             (''s_rel_kJ_per_kgK'', ss)]"
proof -
  have ng: "\<not> rp \<le> 1"
  proof -
    show n0: "\<not> rp \<le> 1"
    proof
      assume "rp \<le> 1"
      then have "\<exists>e. brayton_ideal P1 T1 rp T3 g cp R = Inl e" by (simp add: brayton_ideal_def)
      with assms show False by auto
    qed
  qed
  then have g: "1 < rp" by simp_all
  show "1 < rp" using g by auto
  show "P1 \<noteq> 0"
    using assms
    unfolding brayton_ideal_def Let_def if_not_P [OF ng(1)]
    by (elim bind_err_InrE py_div_InrE)
  show "m = (let ex = (g - 1) / g;
              T2 = T1 * rp powr ex; T4 = T3 * (1 / rp) powr ex;
              Wc = cp * (T2 - T1); Wt = cp * (T3 - T4);
              Qin = cp * (T3 - T2); Qout = cp * (T4 - T1)
          in [(''Wc_kJ_per_kg'', Num Wc),
              (''Wt_kJ_per_kg'', Num Wt),
              (''Wnet_kJ_per_kg'', Num (Wt - Wc)),
              (''Qin_kJ_per_kg'', Num Qin),
              (''eta_th'', Num (1 - Qout / Qin)),
              (''back_work_ratio'', Num (Wc / Wt))])"
    using assms
    unfolding brayton_ideal_def Let_def if_not_P [OF ng(1)]
    apply (elim bind_err_InrE py_div_InrE)
    apply (simp only: sum.inject prod.inject)?
    apply (elim conjE)?
    apply (hypsubst)?
    apply (rule refl)?
    done
  show "\<exists>P2 P3 P4 v2 v3 v4 ss.
       st = [(''State'', [Finite 1, Finite 2, Finite 3, Finite 4]),
             (''P_kPa'', [Finite P1, P2, P3, P4]),
             (''T_K'', [Finite T1, Finite (T1 * rp powr ((g - 1) / g)), Finite T3,
                        Finite (T3 * (1 / rp) powr ((g - 1) / g))]),
             (''v_m3_per_kg'', [Finite (R * T1 / P1), v2, v3, v4]),
             (''s_rel_kJ_per_kgK'', ss)]"
    using assms
    unfolding brayton_ideal_def Let_def if_not_P [OF ng(1)]
    apply (elim bind_err_InrE py_div_InrE)
    apply (simp only: sum.inject prod.inject)?
    apply (elim conjE)?
    apply (hypsubst)?
    apply (intro exI)?
    apply (rule refl)?
    done
qed

lemma carnot_cycle_Inr:
  assumes "carnot_cycle Th Tc ds mode g R v1 = Inr (st, m)"
  shows "Tc < Th" "0 < ds" "R \<noteq> 0" "v1 \<noteq> 0" "Th \<noteq> 0"
    "mode \<in> {''engine'', ''refrigerator'', ''heat_pump''}"
    "m = (if mode = ''engine'' then
            [(''mode'', Str ''Heat engine''), (''Q_in_kJ_per_kg'', Num (Th * ds)),
             (''Q_out_kJ_per_kg'', Num (Tc * ds)), (''W_net_kJ_per_kg'', Num (Th * ds - Tc * ds)),
             (''eta_th'', Num (1 - Tc / Th))]
          else if mode = ''refrigerator'' then
            [(''mode'', Str ''Refrigerator''), (''Q_cold_kJ_per_kg'', Num (Tc * ds)),
             (''W_in_kJ_per_kg'', Num (Th * ds - Tc * ds)),
             (''COP_R'', Num (Tc * ds / (Th * ds - Tc * ds)))]
          else
            [(''mode'', Str ''Heat pump''), (''Q_hot_kJ_per_kg'', Num (Th * ds)),
             (''W_in_kJ_per_kg'', Num (Th * ds - Tc * ds)),
             (''COP_HP'', Num (Th * ds / (Th * ds - Tc * ds)))])"
    "\<exists>v2 v3 v4 P2 P3 P4.
       st = [(''State'', [Finite 1, Finite 2, Finite 3, Finite 4]),
             (''T_K'', [Finite Th, Finite Th, Finite Tc, Finite Tc]),
             (''s_kJ_per_kgK'', [Finite 0, Finite ds, Finite ds, Finite 0]),
             (''v_m3_per_kg'', [Finite v1, v2, v3, v4]),
             (''P_kPa'', [Finite (R * Th / v1), P2, P3, P4])]"
proof -
  have ng: "\<not> Th \<le> Tc" "\<not> ds \<le> 0"
  proof -
    show n0: "\<not> Th \<le> Tc"
    proof
      assume "Th \<le> Tc"
      then have "\<exists>e. carnot_cycle Th Tc ds mode g R v1 = Inl e" by (simp add: carnot_cycle_def)
      with assms show False by auto
    qed
    show "\<not> ds \<le> 0"
    proof
      assume "ds \<le> 0"
      then have "\<exists>e. carnot_cycle Th Tc ds mode g R v1 = Inl e" using n0 by (simp add: carnot_cycle_def)
      with assms show False by auto
    qed
  qed
  then show "Tc < Th" "0 < ds" by simp_all
  note d = assms [unfolded carnot_cycle_def Let_def if_not_P [OF ng(1)] if_not_P [OF ng(2)]]
  from d obtain factor P4 where
    f: "R \<noteq> 0" "Tc \<noteq> 0" "g - 1 \<noteq> 0" "v1 \<noteq> 0"
       "py_pow (Th / Tc) (1 / (g - 1)) = Inr factor"
       "py_div_np (R * Tc) (np_mul (Finite v1) factor) = Inr P4"
    by (elim bind_err_InrE py_div_InrE) simp
  show "R \<noteq> 0" "v1 \<noteq> 0" using f by auto
  show "Th \<noteq> 0"
  proof
    assume "Th = 0"
    then have "factor = Finite 0"
      using f(3,5) by (auto simp: py_pow_def split: if_splits)
    with f(6) show False by (simp add: py_div_np_def)
  qed
  show "mode \<in> {''engine'', ''refrigerator'', ''heat_pump''}"
    using d
    apply (elim bind_err_InrE py_div_InrE)
    apply (simp split: if_splits)
    done
  show "m = (if mode = ''engine'' then
            [(''mode'', Str ''Heat engine''), (''Q_in_kJ_per_kg'', Num (Th * ds)),
             (''Q_out_kJ_per_kg'', Num (Tc * ds)), (''W_net_kJ_per_kg'', Num (Th * ds - Tc * ds)),
             (''eta_th'', Num (1 - Tc / Th))]
          else if mode = ''refrigerator'' then
            [(''mode'', Str ''Refrigerator''), (''Q_cold_kJ_per_kg'', Num (Tc * ds)),
             (''W_in_kJ_per_kg'', Num (Th * ds - Tc * ds)),
             (''COP_R'', Num (Tc * ds / (Th * ds - Tc * ds)))]
          else
            [(''mode'', Str ''Heat pump''), (''Q_hot_kJ_per_kg'', Num (Th * ds)),
             (''W_in_kJ_per_kg'', Num (Th * ds - Tc * ds)),
             (''COP_HP'', Num (Th * ds / (Th * ds - Tc * ds)))])"
    using d
    apply (elim bind_err_InrE py_div_InrE)
    apply (auto split: if_splits elim!: bind_err_InrE py_div_InrE)
    done
  show "\<exists>v2 v3 v4 P2 P3 P4.
       st = [(''State'', [Finite 1, Finite 2, Finite 3, Finite 4]),
             (''T_K'', [Finite Th, Finite Th, Finite Tc, Finite Tc]),
             (''s_kJ_per_kgK'', [Finite 0, Finite ds, Finite ds, Finite 0]),
             (''v_m3_per_kg'', [Finite v1, v2, v3, v4]),
             (''P_kPa'', [Finite (R * Th / v1), P2, P3, P4])]"
    using d
    apply (elim bind_err_InrE py_div_InrE)
    apply (auto split: if_splits elim!: bind_err_InrE py_div_InrE)
    done
qed

subsection \<open>Energy balance of the air-standard cycles\<close>

lemma otto_example_returns:
  "\<exists>st m. otto_cycle 300 100 8 3000 (7 / 5) (287 / 1000) = Inr (st, m)"
proof -
  have "(8::real) powr (7 / 5 - 1) < 8 powr 1" by (rule powr_less_mono) simp_all
  then have "(3000::real) \<noteq> 300 * 8 powr (7 / 5 - 1)" by simp
  then show ?thesis by (intro otto_cycle_returns) simp_all
qed

lemma diesel_example_returns:
  "\<exists>st m. diesel_cycle 300 100 18 2 (7 / 5) (287 / 1000) = Inr (st, m)"
  unfolding diesel_cycle_def Let_def
  by (simp add: bind_err_def py_div_def)

lemma dual_example_returns:
  "\<exists>st m. dual_cycle 300 100 14 (3 / 2) (13 / 10) (7 / 5) (287 / 1000) = Inr (st, m)"
  unfolding dual_cycle_def Let_def
  by (simp add: bind_err_def py_div_def)

lemma carnot_example_returns:
  "\<exists>st m. carnot_cycle 600 300 1 ''engine'' (7 / 5) (287 / 1000) 1 = Inr (st, m)"
  unfolding carnot_cycle_def Let_def
  by (simp add: bind_err_def py_div_def py_pow_def py_div_np_def)

lemma brayton_example_returns:
  "\<exists>st m. brayton_ideal 100 300 10 4000 (7 / 5) (1004 / 1000) (287 / 1000) = Inr (st, m)"
proof -
  have "(10::real) powr ((7 / 5 - 1) / (7 / 5)) < 10 powr 1" by (rule powr_less_mono) simp_all
  then have a: "(4000::real) \<noteq> 300 * 10 powr (2 / 7)" by simp
  have b: "(1 / 10 :: real) powr (2 / 7) \<noteq> 1" by simp
  show ?thesis
    unfolding brayton_ideal_def Let_def
    using a b by (simp add: bind_err_def py_div_def)
qed


lemma brayton_energy_balance:
  assumes "brayton_ideal P1 T1 rp T3 g cp R = Inr (st, m)"
  shows "\<exists>Wc Wt Wnet Qin T2 T4.
           map_of m ''Wc_kJ_per_kg'' = Some (Num Wc) \<and> map_of m ''Wt_kJ_per_kg'' = Some (Num Wt)
         \<and> map_of m ''Wnet_kJ_per_kg'' = Some (Num Wnet) \<and> map_of m ''Qin_kJ_per_kg'' = Some (Num Qin)
         \<and> map_of st ''T_K'' = Some [Finite T1, Finite T2, Finite T3, Finite T4]
         \<and> Wnet = Wt - Wc \<and> Wnet = Qin - cp * (T4 - T1)"
proof -
  note i = brayton_ideal_Inr [OF assms]
  from i(4) obtain P2 P3 P4 v2 v3 v4 ss where
    st: "st = [(''State'', [Finite 1, Finite 2, Finite 3, Finite 4]),
             (''P_kPa'', [Finite P1, P2, P3, P4]),
             (''T_K'', [Finite T1, Finite (T1 * rp powr ((g - 1) / g)), Finite T3,
                        Finite (T3 * (1 / rp) powr ((g - 1) / g))]),
             (''v_m3_per_kg'', [Finite (R * T1 / P1), v2, v3, v4]),
             (''s_rel_kJ_per_kgK'', ss)]"
    by blast
  show ?thesis
    unfolding i(3) st Let_def
    apply simp
    apply (simp add: algebra_simps)?
    done
qed

lemma otto_energy_balance:
  assumes "otto_cycle T1 P1 r T3 g R = Inr (st, m)"
  shows "\<exists>Wnet Qin Qout.
           map_of m ''Wnet_kJ_per_kg'' = Some (Num Wnet) \<and> map_of m ''Qin_kJ_per_kg'' = Some (Num Qin)
         \<and> map_of m ''Qout_kJ_per_kg'' = Some (Num Qout) \<and> Wnet = Qin - Qout"
  unfolding otto_cycle_Inr(7) [OF assms] by simp

lemma diesel_energy_balance:
  assumes "diesel_cycle T1 P1 r rc g R = Inr (st, m)"
  shows "\<exists>Wnet Qin Qout.
           map_of m ''Wnet_kJ_per_kg'' = Some (Num Wnet) \<and> map_of m ''Qin_kJ_per_kg'' = Some (Num Qin)
         \<and> map_of m ''Qout_kJ_per_kg'' = Some (Num Qout) \<and> Wnet = Qin - Qout"
  unfolding diesel_cycle_Inr(4) [OF assms] Let_def by simp

lemma dual_energy_balance:
  assumes "dual_cycle T1 P1 r alpha rc g R = Inr (st, m)"
  shows "\<exists>Wnet Qin Qout.
           map_of m ''Wnet_kJ_per_kg'' = Some (Num Wnet) \<and> map_of m ''Qin_kJ_per_kg'' = Some (Num Qin)
         \<and> map_of m ''Qout_kJ_per_kg'' = Some (Num Qout) \<and> Wnet = Qin - Qout"
  unfolding dual_cycle_Inr(5) [OF assms] Let_def by simp

lemma carnot_energy_balance:
  assumes "carnot_cycle Th Tc ds mode g R v1 = Inr (st, m)"
  shows "(mode = ''engine'' \<and>
            (\<exists>W Qh Qc. map_of m ''W_net_kJ_per_kg'' = Some (Num W)
               \<and> map_of m ''Q_in_kJ_per_kg'' = Some (Num Qh)
               \<and> map_of m ''Q_out_kJ_per_kg'' = Some (Num Qc)
               \<and> Qh = Th * ds \<and> Qc = Tc * ds \<and> W = Qh - Qc)) \<or>
         (mode = ''refrigerator'' \<and>
            (\<exists>W Qc. map_of m ''W_in_kJ_per_kg'' = Some (Num W)
               \<and> map_of m ''Q_cold_kJ_per_kg'' = Some (Num Qc)
               \<and> Qc = Tc * ds \<and> W = Th * ds - Qc)) \<or>
         (mode = ''heat_pump'' \<and>
            (\<exists>W Qh. map_of m ''W_in_kJ_per_kg'' = Some (Num W)
               \<and> map_of m ''Q_hot_kJ_per_kg'' = Some (Num Qh)
               \<and> Qh = Th * ds \<and> W = Qh - Tc * ds))"
  using carnot_cycle_Inr(6) [OF assms] unfolding carnot_cycle_Inr(7) [OF assms]
  by auto


text \<open>
  C1. Whenever an air-standard solver returns, its metrics satisfy the energy balance.
  Otto, Diesel and Dual report \<open>Wnet = Qin - Qout\<close>. Brayton reports the net work as
  turbine work less compressor work, and that equals the reported heat input less the
  heat rejected \<open>cp (T4 - T1)\<close>, with \<open>T4\<close> and \<open>T1\<close> of the state table. Carnot
  reports the work \<open>Qh - Qc\<close> with \<open>Qh = Th ds\<close> and \<open>Qc = Tc ds\<close>, together
  with the heats its mode names.
\<close>

theorem energy_balance:
  "(brayton_ideal P1b T1b rp T3b gb cp Rb = Inr (stb, mb) \<longrightarrow>
      (\<exists>Wc Wt Wnet Qin T2 T4.
           map_of mb ''Wc_kJ_per_kg'' = Some (Num Wc) \<and> map_of mb ''Wt_kJ_per_kg'' = Some (Num Wt)
         \<and> map_of mb ''Wnet_kJ_per_kg'' = Some (Num Wnet) \<and> map_of mb ''Qin_kJ_per_kg'' = Some (Num Qin)
         \<and> map_of stb ''T_K'' = Some [Finite T1b, Finite T2, Finite T3b, Finite T4]
         \<and> Wnet = Wt - Wc \<and> Wnet = Qin - cp * (T4 - T1b))) \<and>
   (otto_cycle T1o P1o ro T3o go Ro = Inr (sto, mo) \<longrightarrow>
      (\<exists>Wnet Qin Qout.
           map_of mo ''Wnet_kJ_per_kg'' = Some (Num Wnet) \<and> map_of mo ''Qin_kJ_per_kg'' = Some (Num Qin)
         \<and> map_of mo ''Qout_kJ_per_kg'' = Some (Num Qout) \<and> Wnet = Qin - Qout)) \<and>
   (diesel_cycle T1d P1d rd rcd gd Rd = Inr (std, md) \<longrightarrow>
      (\<exists>Wnet Qin Qout.
           map_of md ''Wnet_kJ_per_kg'' = Some (Num Wnet) \<and> map_of md ''Qin_kJ_per_kg'' = Some (Num Qin)
         \<and> map_of md ''Qout_kJ_per_kg'' = Some (Num Qout) \<and> Wnet = Qin - Qout)) \<and>
   (dual_cycle T1u P1u ru alpha rcu gu Ru = Inr (stu, mu) \<longrightarrow>
      (\<exists>Wnet Qin Qout.
           map_of mu ''Wnet_kJ_per_kg'' = Some (Num Wnet) \<and> map_of mu ''Qin_kJ_per_kg'' = Some (Num Qin)
         \<and> map_of mu ''Qout_kJ_per_kg'' = Some (Num Qout) \<and> Wnet = Qin - Qout)) \<and>
   (carnot_cycle Th Tc ds mode gc Rc v1 = Inr (stc, mc) \<longrightarrow>
      ((mode = ''engine'' \<and>
            (\<exists>W Qh Qc. map_of mc ''W_net_kJ_per_kg'' = Some (Num W)
               \<and> map_of mc ''Q_in_kJ_per_kg'' = Some (Num Qh)
               \<and> map_of mc ''Q_out_kJ_per_kg'' = Some (Num Qc)
               \<and> Qh = Th * ds \<and> Qc = Tc * ds \<and> W = Qh - Qc)) \<or>
         (mode = ''refrigerator'' \<and>
            (\<exists>W Qc. map_of mc ''W_in_kJ_per_kg'' = Some (Num W)
               \<and> map_of mc ''Q_cold_kJ_per_kg'' = Some (Num Qc)
               \<and> Qc = Tc * ds \<and> W = Th * ds - Qc)) \<or>
         (mode = ''heat_pump'' \<and>
            (\<exists>W Qh. map_of mc ''W_in_kJ_per_kg'' = Some (Num W)
               \<and> map_of mc ''Q_hot_kJ_per_kg'' = Some (Num Qh)
               \<and> Qh = Th * ds \<and> W = Qh - Tc * ds))))"
  using brayton_energy_balance [of P1b T1b rp T3b gb cp Rb stb mb]
    otto_energy_balance [of T1o P1o ro T3o go Ro sto mo]
    diesel_energy_balance [of T1d P1d rd rcd gd Rd std md]
    dual_energy_balance [of T1u P1u ru alpha rcu gu Ru stu mu]
    carnot_energy_balance [of Th Tc ds mode gc Rc v1 stc mc]
  by (intro conjI impI) assumption+

theorem energy_balance_witness:
  "(\<exists>st m. brayton_ideal 100 300 10 4000 (7 / 5) (1004 / 1000) (287 / 1000) = Inr (st, m) \<and>
      (\<exists>Wc Wt Wnet Qin T2 T4.
           map_of m ''Wc_kJ_per_kg'' = Some (Num Wc) \<and> map_of m ''Wt_kJ_per_kg'' = Some (Num Wt)
         \<and> map_of m ''Wnet_kJ_per_kg'' = Some (Num Wnet) \<and> map_of m ''Qin_kJ_per_kg'' = Some (Num Qin)
         \<and> map_of st ''T_K'' = Some [Finite 300, Finite T2, Finite 4000, Finite T4]
         \<and> Wnet = Wt - Wc \<and> Wnet = Qin - (1004 / 1000) * (T4 - 300))) \<and>
   (\<exists>st m. otto_cycle 300 100 8 3000 (7 / 5) (287 / 1000) = Inr (st, m) \<and>
      (\<exists>Wnet Qin Qout.
           map_of m ''Wnet_kJ_per_kg'' = Some (Num Wnet) \<and> map_of m ''Qin_kJ_per_kg'' = Some (Num Qin)
         \<and> map_of m ''Qout_kJ_per_kg'' = Some (Num Qout) \<and> Wnet = Qin - Qout)) \<and>
   (\<exists>st m. diesel_cycle 300 100 18 2 (7 / 5) (287 / 1000) = Inr (st, m) \<and>
      (\<exists>Wnet Qin Qout.
           map_of m ''Wnet_kJ_per_kg'' = Some (Num Wnet) \<and> map_of m ''Qin_kJ_per_kg'' = Some (Num Qin)
         \<and> map_of m ''Qout_kJ_per_kg'' = Some (Num Qout) \<and> Wnet = Qin - Qout)) \<and>
   (\<exists>st m. dual_cycle 300 100 14 (3 / 2) (13 / 10) (7 / 5) (287 / 1000) = Inr (st, m) \<and>
      (\<exists>Wnet Qin Qout.
           map_of m ''Wnet_kJ_per_kg'' = Some (Num Wnet) \<and> map_of m ''Qin_kJ_per_kg'' = Some (Num Qin)
         \<and> map_of m ''Qout_kJ_per_kg'' = Some (Num Qout) \<and> Wnet = Qin - Qout)) \<and>
   (\<exists>st m. carnot_cycle 600 300 1 ''engine'' (7 / 5) (287 / 1000) 1 = Inr (st, m) \<and>
      (\<exists>W Qh Qc. map_of m ''W_net_kJ_per_kg'' = Some (Num W)
               \<and> map_of m ''Q_in_kJ_per_kg'' = Some (Num Qh)
               \<and> map_of m ''Q_out_kJ_per_kg'' = Some (Num Qc)
               \<and> Qh = 600 \<and> Qc = 300 \<and> W = Qh - Qc))"
proof -
  obtain stb mb where b: "brayton_ideal 100 300 10 4000 (7 / 5) (1004 / 1000) (287 / 1000) = Inr (stb, mb)"
    using brayton_example_returns by blast
  obtain sto mo where o: "otto_cycle 300 100 8 3000 (7 / 5) (287 / 1000) = Inr (sto, mo)"
    using otto_example_returns by blast
  obtain std md where d: "diesel_cycle 300 100 18 2 (7 / 5) (287 / 1000) = Inr (std, md)"
    using diesel_example_returns by blast
  obtain stu mu where u: "dual_cycle 300 100 14 (3 / 2) (13 / 10) (7 / 5) (287 / 1000) = Inr (stu, mu)"
    using dual_example_returns by blast
  obtain stc mc where c: "carnot_cycle 600 300 1 ''engine'' (7 / 5) (287 / 1000) 1 = Inr (stc, mc)"
    using carnot_example_returns by blast
  note t = energy_balance
  note tb = t [THEN conjunct1, THEN mp, OF b]
  note to = t [THEN conjunct2, THEN conjunct1, THEN mp, OF o]
  note td = t [THEN conjunct2, THEN conjunct2, THEN conjunct1, THEN mp, OF d]
  note tu = t [THEN conjunct2, THEN conjunct2, THEN conjunct2, THEN conjunct1, THEN mp, OF u]
  note tc = t [THEN conjunct2, THEN conjunct2, THEN conjunct2, THEN conjunct2, THEN mp, OF c]
  have tc': "\<exists>W Qh Qc. map_of mc ''W_net_kJ_per_kg'' = Some (Num W)
               \<and> map_of mc ''Q_in_kJ_per_kg'' = Some (Num Qh)
               \<and> map_of mc ''Q_out_kJ_per_kg'' = Some (Num Qc)
               \<and> Qh = 600 \<and> Qc = 300 \<and> W = Qh - Qc"
    using tc by simp
  show ?thesis
    apply (intro conjI)
    subgoal using b tb by blast
    subgoal using o to by blast
    subgoal using d td by blast
    subgoal using u tu by blast
    subgoal using c tc' by blast
    done
qed

subsection \<open>The reference volume\<close>

lemma otto_reference_volume:
  assumes "otto_cycle T1o P1o ro T3o go Ro = Inr (sto, mo)"
  shows "((\<exists>vs Ps Ts. map_of sto ''v_m3_per_kg'' = Some (Finite (Ro * T1o / P1o) # vs)
          \<and> map_of sto ''P_kPa'' = Some (Finite P1o # Ps)
          \<and> map_of sto ''T_K'' = Some (Finite T1o # Ts) \<and> P1o \<noteq> 0) \<and>
       (\<forall>P1' st' m'. otto_cycle T1o P1' ro T3o go Ro = Inr (st', m') \<longrightarrow> m' = mo))"
proof -
  note i = otto_cycle_Inr [OF assms]
  have a: "\<exists>vs Ps Ts. map_of sto ''v_m3_per_kg'' = Some (Finite (Ro * T1o / P1o) # vs)
          \<and> map_of sto ''P_kPa'' = Some (Finite P1o # Ps)
          \<and> map_of sto ''T_K'' = Some (Finite T1o # Ts) \<and> P1o \<noteq> 0"
    using i(8) i(4) by auto
  have b: "m' = mo" if "otto_cycle T1o P1' ro T3o go Ro = Inr (st', m')" for P1' st' m'
    using otto_cycle_Inr(7) [OF that] i(7) by simp
  from a b show ?thesis by blast
qed

lemma diesel_reference_volume:
  assumes "diesel_cycle T1d P1d rd rcd gd Rd = Inr (std, md)"
  shows "((\<exists>vs Ps Ts. map_of std ''v_m3_per_kg'' = Some (Finite (Rd * T1d / P1d) # vs)
          \<and> map_of std ''P_kPa'' = Some (Finite P1d # Ps)
          \<and> map_of std ''T_K'' = Some (Finite T1d # Ts) \<and> P1d \<noteq> 0) \<and>
       (\<forall>P1' st' m'. diesel_cycle T1d P1' rd rcd gd Rd = Inr (st', m') \<longrightarrow> m' = md))"
proof -
  note i = diesel_cycle_Inr [OF assms]
  have a: "\<exists>vs Ps Ts. map_of std ''v_m3_per_kg'' = Some (Finite (Rd * T1d / P1d) # vs)
          \<and> map_of std ''P_kPa'' = Some (Finite P1d # Ps)
          \<and> map_of std ''T_K'' = Some (Finite T1d # Ts) \<and> P1d \<noteq> 0"
    using i(5) i(3) by auto
  have b: "m' = md" if "diesel_cycle T1d P1' rd rcd gd Rd = Inr (st', m')" for P1' st' m'
    using diesel_cycle_Inr(4) [OF that] i(4) by simp
  from a b show ?thesis by blast
qed

lemma dual_reference_volume:
  assumes "dual_cycle T1u P1u ru alpha rcu gu Ru = Inr (stu, mu)"
  shows "((\<exists>vs Ps Ts. map_of stu ''v_m3_per_kg'' = Some (Finite (Ru * T1u / P1u) # vs)
          \<and> map_of stu ''P_kPa'' = Some (Finite P1u # Ps)
          \<and> map_of stu ''T_K'' = Some (Finite T1u # Ts) \<and> P1u \<noteq> 0) \<and>
       (\<forall>P1' st' m'. dual_cycle T1u P1' ru alpha rcu gu Ru = Inr (st', m') \<longrightarrow> m' = mu))"
proof -
  note i = dual_cycle_Inr [OF assms]
  have a: "\<exists>vs Ps Ts. map_of stu ''v_m3_per_kg'' = Some (Finite (Ru * T1u / P1u) # vs)
          \<and> map_of stu ''P_kPa'' = Some (Finite P1u # Ps)
          \<and> map_of stu ''T_K'' = Some (Finite T1u # Ts) \<and> P1u \<noteq> 0"
    using i(6) i(4) by auto
  have b: "m' = mu" if "dual_cycle T1u P1' ru alpha rcu gu Ru = Inr (st', m')" for P1' st' m'
    using dual_cycle_Inr(5) [OF that] i(5) by simp
  from a b show ?thesis by blast
qed

lemma brayton_reference_volume:
  assumes "brayton_ideal P1b T1b rp T3b gb cp Rb = Inr (stb, mb)"
  shows "((\<exists>vs Ps Ts. map_of stb ''v_m3_per_kg'' = Some (Finite (Rb * T1b / P1b) # vs)
          \<and> map_of stb ''P_kPa'' = Some (Finite P1b # Ps)
          \<and> map_of stb ''T_K'' = Some (Finite T1b # Ts) \<and> P1b \<noteq> 0) \<and>
       (\<forall>P1' st' m'. brayton_ideal P1' T1b rp T3b gb cp Rb = Inr (st', m') \<longrightarrow> m' = mb))"
proof -
  note i = brayton_ideal_Inr [OF assms]
  have a: "\<exists>vs Ps Ts. map_of stb ''v_m3_per_kg'' = Some (Finite (Rb * T1b / P1b) # vs)
          \<and> map_of stb ''P_kPa'' = Some (Finite P1b # Ps)
          \<and> map_of stb ''T_K'' = Some (Finite T1b # Ts) \<and> P1b \<noteq> 0"
    using i(4) i(2) by auto
  have b: "m' = mb" if "brayton_ideal P1' T1b rp T3b gb cp Rb = Inr (st', m')" for P1' st' m'
    using brayton_ideal_Inr(3) [OF that] i(3) by simp
  from a b show ?thesis by blast
qed

lemma carnot_reference_volume:
  assumes "carnot_cycle Th Tc ds mode gc Rc v1 = Inr (stc, mc)"
  shows "((\<exists>P vs Ps Ts. map_of stc ''v_m3_per_kg'' = Some (Finite v1 # vs)
          \<and> map_of stc ''P_kPa'' = Some (Finite P # Ps)
          \<and> map_of stc ''T_K'' = Some (Finite Th # Ts) \<and> P \<noteq> 0 \<and> v1 = Rc * Th / P) \<and>
       (\<forall>v1' st' m'. carnot_cycle Th Tc ds mode gc Rc v1' = Inr (st', m') \<longrightarrow> m' = mc))"
proof -
  note i = carnot_cycle_Inr [OF assms]
  from i(8) obtain v2 v3 v4 P2 P3 P4 where
    st: "stc = [(''State'', [Finite 1, Finite 2, Finite 3, Finite 4]),
             (''T_K'', [Finite Th, Finite Th, Finite Tc, Finite Tc]),
             (''s_kJ_per_kgK'', [Finite 0, Finite ds, Finite ds, Finite 0]),
             (''v_m3_per_kg'', [Finite v1, v2, v3, v4]),
             (''P_kPa'', [Finite (Rc * Th / v1), P2, P3, P4])]"
    by blast
  have p: "Rc * Th / v1 \<noteq> 0" "v1 = Rc * Th / (Rc * Th / v1)"
    using i(3,4,5) by simp_all
  have a: "\<exists>P vs Ps Ts. map_of stc ''v_m3_per_kg'' = Some (Finite v1 # vs)
          \<and> map_of stc ''P_kPa'' = Some (Finite P # Ps)
          \<and> map_of stc ''T_K'' = Some (Finite Th # Ts) \<and> P \<noteq> 0 \<and> v1 = Rc * Th / P"
    unfolding st using p by simp
  have b: "m' = mc" if "carnot_cycle Th Tc ds mode gc Rc v1' = Inr (st', m')" for v1' st' m'
    using carnot_cycle_Inr(7) [OF that] i(7) by simp
  from a b show ?thesis by blast
qed

text \<open>
  C6. In the state table of every air-standard solver, state 1 obeys the ideal-gas law:
  its volume is \<open>R T1 / P1\<close> for its own temperature and pressure. Otto, Diesel, Dual
  and Brayton compute the volume from \<open>T1\<close> and \<open>P1\<close>; Carnot takes the volume
  \<open>v1\<close> as a parameter and computes the pressure \<open>R Th / v1\<close> from it. The scale
  does not reach the metrics: a call with another \<open>P1\<close> (another \<open>v1\<close> for Carnot)
  that returns has the same dictionary of metrics, so the same efficiency, COP and
  back-work ratio.
\<close>

theorem reference_volume:
  "(otto_cycle T1o P1o ro T3o go Ro = Inr (sto, mo) \<longrightarrow>
      ((\<exists>vs Ps Ts. map_of sto ''v_m3_per_kg'' = Some (Finite (Ro * T1o / P1o) # vs)
          \<and> map_of sto ''P_kPa'' = Some (Finite P1o # Ps)
          \<and> map_of sto ''T_K'' = Some (Finite T1o # Ts) \<and> P1o \<noteq> 0) \<and>
       (\<forall>P1' st' m'. otto_cycle T1o P1' ro T3o go Ro = Inr (st', m') \<longrightarrow> m' = mo))) \<and>
   (diesel_cycle T1d P1d rd rcd gd Rd = Inr (std, md) \<longrightarrow>
      ((\<exists>vs Ps Ts. map_of std ''v_m3_per_kg'' = Some (Finite (Rd * T1d / P1d) # vs)
          \<and> map_of std ''P_kPa'' = Some (Finite P1d # Ps)
          \<and> map_of std ''T_K'' = Some (Finite T1d # Ts) \<and> P1d \<noteq> 0) \<and>
       (\<forall>P1' st' m'. diesel_cycle T1d P1' rd rcd gd Rd = Inr (st', m') \<longrightarrow> m' = md))) \<and>
   (dual_cycle T1u P1u ru alpha rcu gu Ru = Inr (stu, mu) \<longrightarrow>
      ((\<exists>vs Ps Ts. map_of stu ''v_m3_per_kg'' = Some (Finite (Ru * T1u / P1u) # vs)
          \<and> map_of stu ''P_kPa'' = Some (Finite P1u # Ps)
          \<and> map_of stu ''T_K'' = Some (Finite T1u # Ts) \<and> P1u \<noteq> 0) \<and>
       (\<forall>P1' st' m'. dual_cycle T1u P1' ru alpha rcu gu Ru = Inr (st', m') \<longrightarrow> m' = mu))) \<and>
   (brayton_ideal P1b T1b rp T3b gb cp Rb = Inr (stb, mb) \<longrightarrow>
      ((\<exists>vs Ps Ts. map_of stb ''v_m3_per_kg'' = Some (Finite (Rb * T1b / P1b) # vs)
          \<and> map_of stb ''P_kPa'' = Some (Finite P1b # Ps)
          \<and> map_of stb ''T_K'' = Some (Finite T1b # Ts) \<and> P1b \<noteq> 0) \<and>
       (\<forall>P1' st' m'. brayton_ideal P1' T1b rp T3b gb cp Rb = Inr (st', m') \<longrightarrow> m' = mb))) \<and>
   (carnot_cycle Th Tc ds mode gc Rc v1 = Inr (stc, mc) \<longrightarrow>
      ((\<exists>P vs Ps Ts. map_of stc ''v_m3_per_kg'' = Some (Finite v1 # vs)
          \<and> map_of stc ''P_kPa'' = Some (Finite P # Ps)
          \<and> map_of stc ''T_K'' = Some (Finite Th # Ts) \<and> P \<noteq> 0 \<and> v1 = Rc * Th / P) \<and>
       (\<forall>v1' st' m'. carnot_cycle Th Tc ds mode gc Rc v1' = Inr (st', m') \<longrightarrow> m' = mc)))"
  apply (rule conjI, rule impI, erule otto_reference_volume)
  apply (rule conjI, rule impI, erule diesel_reference_volume)
  apply (rule conjI, rule impI, erule dual_reference_volume)
  apply (rule conjI, rule impI, erule brayton_reference_volume)
  apply (rule impI, erule carnot_reference_volume)
  done


lemma otto_example_returns2:
  "\<exists>st m. otto_cycle 300 200 8 3000 (7 / 5) (287 / 1000) = Inr (st, m)"
proof -
  have "(8::real) powr (7 / 5 - 1) < 8 powr 1" by (rule powr_less_mono) simp_all
  then have "(3000::real) \<noteq> 300 * 8 powr (7 / 5 - 1)" by simp
  then show ?thesis by (intro otto_cycle_returns) simp_all
qed

lemma diesel_example_returns2:
  "\<exists>st m. diesel_cycle 300 200 18 2 (7 / 5) (287 / 1000) = Inr (st, m)"
  unfolding diesel_cycle_def Let_def
  by (simp add: bind_err_def py_div_def)

lemma dual_example_returns2:
  "\<exists>st m. dual_cycle 300 200 14 (3 / 2) (13 / 10) (7 / 5) (287 / 1000) = Inr (st, m)"
  unfolding dual_cycle_def Let_def
  by (simp add: bind_err_def py_div_def)

lemma carnot_example_returns2:
  "\<exists>st m. carnot_cycle 600 300 1 ''engine'' (7 / 5) (287 / 1000) 2 = Inr (st, m)"
  unfolding carnot_cycle_def Let_def
  by (simp add: bind_err_def py_div_def py_pow_def py_div_np_def)

lemma brayton_example_returns2:
  "\<exists>st m. brayton_ideal 200 300 10 4000 (7 / 5) (1004 / 1000) (287 / 1000) = Inr (st, m)"
proof -
  have "(10::real) powr ((7 / 5 - 1) / (7 / 5)) < 10 powr 1" by (rule powr_less_mono) simp_all
  then have a: "(4000::real) \<noteq> 300 * 10 powr (2 / 7)" by simp
  have b: "(1 / 10 :: real) powr (2 / 7) \<noteq> 1" by simp
  show ?thesis
    unfolding brayton_ideal_def Let_def
    using a b by (simp add: bind_err_def py_div_def)
qed

theorem reference_volume_witness:
  "(\<exists>st m st' m' vs.
      otto_cycle 300 100 8 3000 (7 / 5) (287 / 1000) = Inr (st, m)
    \<and> otto_cycle 300 200 8 3000 (7 / 5) (287 / 1000) = Inr (st', m') \<and> m' = m
    \<and> map_of st ''v_m3_per_kg'' = Some (Finite (287 / 1000 * 300 / 100) # vs)) \<and>
   (\<exists>st m st' m' vs.
      diesel_cycle 300 100 18 2 (7 / 5) (287 / 1000) = Inr (st, m)
    \<and> diesel_cycle 300 200 18 2 (7 / 5) (287 / 1000) = Inr (st', m') \<and> m' = m
    \<and> map_of st ''v_m3_per_kg'' = Some (Finite (287 / 1000 * 300 / 100) # vs)) \<and>
   (\<exists>st m st' m' vs.
      dual_cycle 300 100 14 (3 / 2) (13 / 10) (7 / 5) (287 / 1000) = Inr (st, m)
    \<and> dual_cycle 300 200 14 (3 / 2) (13 / 10) (7 / 5) (287 / 1000) = Inr (st', m') \<and> m' = m
    \<and> map_of st ''v_m3_per_kg'' = Some (Finite (287 / 1000 * 300 / 100) # vs)) \<and>
   (\<exists>st m st' m' vs.
      brayton_ideal 100 300 10 4000 (7 / 5) (1004 / 1000) (287 / 1000) = Inr (st, m)
    \<and> brayton_ideal 200 300 10 4000 (7 / 5) (1004 / 1000) (287 / 1000) = Inr (st', m') \<and> m' = m
    \<and> map_of st ''v_m3_per_kg'' = Some (Finite (287 / 1000 * 300 / 100) # vs)) \<and>
   (\<exists>st m st' m' P vs Ps.
      carnot_cycle 600 300 1 ''engine'' (7 / 5) (287 / 1000) 1 = Inr (st, m)
    \<and> carnot_cycle 600 300 1 ''engine'' (7 / 5) (287 / 1000) 2 = Inr (st', m') \<and> m' = m
    \<and> map_of st ''v_m3_per_kg'' = Some (Finite 1 # vs)
    \<and> map_of st ''P_kPa'' = Some (Finite P # Ps) \<and> 1 = 287 / 1000 * 600 / P)"
proof -
  obtain sto mo sto' mo' where o: "otto_cycle 300 100 8 3000 (7 / 5) (287 / 1000) = Inr (sto, mo)"
    "otto_cycle 300 200 8 3000 (7 / 5) (287 / 1000) = Inr (sto', mo')"
    using otto_example_returns otto_example_returns2 by blast
  obtain std md std' md' where d: "diesel_cycle 300 100 18 2 (7 / 5) (287 / 1000) = Inr (std, md)"
    "diesel_cycle 300 200 18 2 (7 / 5) (287 / 1000) = Inr (std', md')"
    using diesel_example_returns diesel_example_returns2 by blast
  obtain stu mu stu' mu' where u:
    "dual_cycle 300 100 14 (3 / 2) (13 / 10) (7 / 5) (287 / 1000) = Inr (stu, mu)"
    "dual_cycle 300 200 14 (3 / 2) (13 / 10) (7 / 5) (287 / 1000) = Inr (stu', mu')"
    using dual_example_returns dual_example_returns2 by blast
  obtain stb mb stb' mb' where b:
    "brayton_ideal 100 300 10 4000 (7 / 5) (1004 / 1000) (287 / 1000) = Inr (stb, mb)"
    "brayton_ideal 200 300 10 4000 (7 / 5) (1004 / 1000) (287 / 1000) = Inr (stb', mb')"
    using brayton_example_returns brayton_example_returns2 by blast
  obtain stc mc stc' mc' where c:
    "carnot_cycle 600 300 1 ''engine'' (7 / 5) (287 / 1000) 1 = Inr (stc, mc)"
    "carnot_cycle 600 300 1 ''engine'' (7 / 5) (287 / 1000) 2 = Inr (stc', mc')"
    using carnot_example_returns carnot_example_returns2 by blast
  note t = reference_volume
  note to = t [THEN conjunct1, THEN mp, OF o(1)]
  note td = t [THEN conjunct2, THEN conjunct1, THEN mp, OF d(1)]
  note tu = t [THEN conjunct2, THEN conjunct2, THEN conjunct1, THEN mp, OF u(1)]
  note tb = t [THEN conjunct2, THEN conjunct2, THEN conjunct2, THEN conjunct1, THEN mp, OF b(1)]
  note tc = t [THEN conjunct2, THEN conjunct2, THEN conjunct2, THEN conjunct2, THEN mp, OF c(1)]
  show ?thesis
    apply (intro conjI)
    subgoal using o to by blast
    subgoal using d td by blast
    subgoal using u tu by blast
    subgoal using b tb by blast
    subgoal using c tc by blast
    done
qed

subsection \<open>Invalid parameters\<close>

text \<open>
  C7. Brayton with \<open>rp = 1\<close>, basic Rankine with \<open>Pb \<le> Pc\<close> and Rankine with reheat
  with \<open>Pb \<le> Pr\<close> fail with a \<open>ValueError\<close>, whatever the other arguments and
  whatever the provider does. The two Rankine solvers fail with an empty log: no
  property was looked up before the error.
\<close>

theorem invalid_parameters:
  "brayton_ideal P1 T1 1 T3 g cp R = Inl (ValueError ''Pressure ratio rp must be > 1'') \<and>
   (Pb \<le> Pc \<longrightarrow>
      rankine_ideal prov Pc Pb T3_C [] =
        (Inl (ValueError (if Pc \<le> 0 \<or> Pb \<le> 0 then ''Pressures must be > 0''
                          else ''Boiler pressure must be > condenser pressure'')), [])) \<and>
   (Pb' \<le> Pr \<longrightarrow>
      rankine_reheat_ideal prov' Pc' Pb' Pr T3' T5' [] =
        (Inl (ValueError (if Pc' \<le> 0 \<or> Pb' \<le> 0 \<or> Pr \<le> 0 then ''Pressures must be > 0''
                          else ''Need Pb > Pr > Pc'')), []))"
  by (simp add: brayton_ideal_def rankine_ideal_def rankine_reheat_ideal_def traise_def)

theorem invalid_parameters_witness:
  "rankine_ideal (\<lambda>q. Inl (NotImplementedError ''Incoming out of bound'')) 10 10 None [] =
     (Inl (ValueError ''Boiler pressure must be > condenser pressure''), []) \<and>
   rankine_reheat_ideal (\<lambda>q. Inl (NotImplementedError ''Incoming out of bound''))
       10 8000 8000 450 450 [] =
     (Inl (ValueError ''Need Pb > Pr > Pc''), [])"
proof -
  note t = invalid_parameters [of _ _ _ _ _ _ 10 10
      "\<lambda>q. Inl (NotImplementedError ''Incoming out of bound'')" None
      8000 8000 "\<lambda>q. Inl (NotImplementedError ''Incoming out of bound'')" 10 450 450]
  have a: "(10::real) \<le> 10" and b: "(8000::real) \<le> 8000" by simp_all
  show ?thesis
    using t [THEN conjunct2, THEN conjunct1, THEN mp, OF a]
      t [THEN conjunct2, THEN conjunct2, THEN mp, OF b]
    by simp
qed

end
